theory Spec2Isabelle
  imports Main "HOL-Library.Char_ord"
begin

section \<open>Go strings as byte lists\<close>

text \<open>
  A Go \<^verbatim>\<open>string\<close> is a sequence of bytes and \<^verbatim>\<open>len\<close> counts bytes; \<^typ>\<open>string\<close>
  (a list of 8-bit characters) is the same thing. The functions of this section are the
  ones of Go's \<^verbatim>\<open>strings\<close> and \<^verbatim>\<open>regexp\<close> packages that the repository calls,
  written out for the arguments it passes.
\<close>

definition isUpper :: "char \<Rightarrow> bool" where
  "isUpper c \<longleftrightarrow> CHR ''A'' \<le> c \<and> c \<le> CHR ''Z''"

definition isLower :: "char \<Rightarrow> bool" where
  "isLower c \<longleftrightarrow> CHR ''a'' \<le> c \<and> c \<le> CHR ''z''"

definition isDigit :: "char \<Rightarrow> bool" where
  "isDigit c \<longleftrightarrow> CHR ''0'' \<le> c \<and> c \<le> CHR ''9''"

text \<open>\<^verbatim>\<open>utf8.RuneSelf\<close> is 0x80: bytes below it are single-byte (ASCII) runes.\<close>

definition isASCII :: "char \<Rightarrow> bool" where
  "isASCII c \<longleftrightarrow> c < CHR 0x80"

text \<open>
  A control code: the C0 range 0x00..0x1F and DEL (0x7F), what \<^verbatim>\<open>unicode.IsControl\<close>
  accepts among the ASCII bytes.
\<close>

definition isControl :: "char \<Rightarrow> bool" where
  "isControl c \<longleftrightarrow> c < CHR 0x20 \<or> c = CHR 0x7F"

subsection \<open>strings.ReplaceAll with a one-byte pattern\<close>

definition ReplaceAllByte :: "string \<Rightarrow> char \<Rightarrow> string \<Rightarrow> string" where
  "ReplaceAllByte s old new = concat (map (\<lambda>c. if c = old then new else [c]) s)"

subsection \<open>strings.TrimSpace\<close>

text \<open>
  \<^verbatim>\<open>strings.TrimSpace\<close> removes leading and trailing white space as Unicode defines it
  (\<^verbatim>\<open>unicode.IsSpace\<close>), decoding the string as UTF-8. The white-space runes are the six
  ASCII ones, U+0085 and U+00A0 (two bytes each in UTF-8), and U+1680, U+2000..U+200A,
  U+2028, U+2029, U+202F, U+205F, U+3000 (three bytes each). A byte sequence that is not
  the encoding of one of them decodes to another rune or to the error rune, neither of
  which is white space, so trimming stops there.
\<close>

definition asciiSpace :: "char \<Rightarrow> bool" where
  "asciiSpace c \<longleftrightarrow>
     c = CHR 0x09 \<or> c = CHR 0x0A \<or> c = CHR 0x0B \<or> c = CHR 0x0C \<or> c = CHR 0x0D \<or> c = CHR 0x20"

definition isSpace2 :: "char \<Rightarrow> char \<Rightarrow> bool" where
  "isSpace2 a b \<longleftrightarrow> a = CHR 0xC2 \<and> (b = CHR 0x85 \<or> b = CHR 0xA0)"

definition isSpace3 :: "char \<Rightarrow> char \<Rightarrow> char \<Rightarrow> bool" where
  "isSpace3 a b c \<longleftrightarrow>
     (a = CHR 0xE1 \<and> b = CHR 0x9A \<and> c = CHR 0x80) \<or>
     (a = CHR 0xE2 \<and> b = CHR 0x80 \<and>
        ((CHR 0x80 \<le> c \<and> c \<le> CHR 0x8A) \<or> c = CHR 0xA8 \<or> c = CHR 0xA9 \<or> c = CHR 0xAF)) \<or>
     (a = CHR 0xE2 \<and> b = CHR 0x81 \<and> c = CHR 0x9F) \<or>
     (a = CHR 0xE3 \<and> b = CHR 0x80 \<and> c = CHR 0x80)"

text \<open>The width in bytes of the white-space rune a string starts with, 0 when it starts with none.\<close>

fun leadingSpaceWidth :: "string \<Rightarrow> nat" where
  "leadingSpaceWidth [] = 0"
| "leadingSpaceWidth [a] = (if asciiSpace a then 1 else 0)"
| "leadingSpaceWidth [a, b] = (if asciiSpace a then 1 else if isSpace2 a b then 2 else 0)"
| "leadingSpaceWidth (a # b # c # s) =
     (if asciiSpace a then 1 else if isSpace2 a b then 2 else if isSpace3 a b c then 3 else 0)"

text \<open>The same for the rune a string ends with; the argument is the string reversed.\<close>

fun trailingSpaceWidth :: "string \<Rightarrow> nat" where
  "trailingSpaceWidth [] = 0"
| "trailingSpaceWidth [a] = (if asciiSpace a then 1 else 0)"
| "trailingSpaceWidth [b, a] = (if asciiSpace b then 1 else if isSpace2 a b then 2 else 0)"
| "trailingSpaceWidth (c # b # a # s) =
     (if asciiSpace c then 1 else if isSpace2 b c then 2 else if isSpace3 a b c then 3 else 0)"

function TrimLeftSpace :: "string \<Rightarrow> string" where
  "TrimLeftSpace s =
     (if leadingSpaceWidth s = 0 then s else TrimLeftSpace (drop (leadingSpaceWidth s) s))"
  by pat_completeness auto
termination
proof (relation "measure length")
  show "wf (measure length)" by simp
next
  fix s :: string
  assume "leadingSpaceWidth s \<noteq> 0"
  then have "s \<noteq> []" by (cases s) simp_all
  with \<open>leadingSpaceWidth s \<noteq> 0\<close>
  show "(drop (leadingSpaceWidth s) s, s) \<in> measure length" by simp
qed

function TrimRightRev :: "string \<Rightarrow> string" where
  "TrimRightRev r =
     (if trailingSpaceWidth r = 0 then r else TrimRightRev (drop (trailingSpaceWidth r) r))"
  by pat_completeness auto
termination
proof (relation "measure length")
  show "wf (measure length)" by simp
next
  fix r :: string
  assume "trailingSpaceWidth r \<noteq> 0"
  then have "r \<noteq> []" by (cases r) simp_all
  with \<open>trailingSpaceWidth r \<noteq> 0\<close>
  show "(drop (trailingSpaceWidth r) r, r) \<in> measure length" by simp
qed

definition TrimRightSpace :: "string \<Rightarrow> string" where
  "TrimRightSpace s = rev (TrimRightRev (rev s))"

definition TrimSpace :: "string \<Rightarrow> string" where
  "TrimSpace s = TrimRightSpace (TrimLeftSpace s)"

subsection \<open>strings.Trim with a cutset of ASCII bytes\<close>

definition Trim :: "string \<Rightarrow> string \<Rightarrow> string" where
  "Trim s cutset =
     rev (dropWhile (\<lambda>c. c \<in> set cutset) (rev (dropWhile (\<lambda>c. c \<in> set cutset) s)))"

subsection \<open>strings.ToLower\<close>

text \<open>
  \<^verbatim>\<open>strings.ToLower\<close> has a fast path for strings of ASCII bytes only: each of
  \<^verbatim>\<open>'A'..'Z'\<close> gets \<^verbatim>\<open>'a' - 'A'\<close> added. Any other string goes through
  \<^verbatim>\<open>strings.Map(unicode.ToLower, s)\<close>, which depends on the Unicode case tables; those
  are not part of the repository, so that path is the parameter \<open>unicodeToLower\<close>.
\<close>

definition lowerByte :: "char \<Rightarrow> char" where
  "lowerByte c =
     (if isUpper c then char_of (of_char c + (of_char CHR ''a'' - of_char CHR ''A'' :: nat)) else c)"

definition ToLower :: "(string \<Rightarrow> string) \<Rightarrow> string \<Rightarrow> string" where
  "ToLower unicodeToLower s =
     (if list_all isASCII s
      then (if list_ex isUpper s then map lowerByte s else s)
      else unicodeToLower s)"

section \<open>shared/middleware: SanitizeString\<close>

text \<open>
  \<^verbatim>\<open>
  func SanitizeString(input string) string {
      // Remove null bytes and control characters
      input = strings.ReplaceAll(input, "\x00", "")
      input = strings.TrimSpace(input)
      // Limit length to prevent DoS
      if len(input) > 1000 {
          input = input[:1000]
      }
      return input
  }
  \<close>
\<close>

definition SanitizeString :: "string \<Rightarrow> string" where
  "SanitizeString input0 =
     (let input1 = ReplaceAllByte input0 (CHR 0x00) [];
          input2 = TrimSpace input1
      in if length input2 > 1000 then take 1000 input2 else input2)"

section \<open>regexp: the two patterns of the handler\<close>

text \<open>
  \<^verbatim>\<open>regexp.MatchString(`^[a-zA-Z0-9\s\-_]+$`, s)\<close>. In Go's RE2 syntax \<^verbatim>\<open>\s\<close> is the
  class \<^verbatim>\<open>[\t\n\f\r ]\<close>, and without the \<^verbatim>\<open>m\<close> flag \<^verbatim>\<open>^\<close> and \<^verbatim>\<open>$\<close> match only at
  the two ends of the text. Every member of the class is an ASCII byte; a byte from 0x80
  on belongs to a multi-byte rune or decodes to the error rune, and neither is in the
  class. So the match is decided byte by byte.
\<close>

definition reSpace :: "char \<Rightarrow> bool" where
  "reSpace c \<longleftrightarrow> c = CHR 0x09 \<or> c = CHR 0x0A \<or> c = CHR 0x0C \<or> c = CHR 0x0D \<or> c = CHR 0x20"

definition nameClass :: "char \<Rightarrow> bool" where
  "nameClass c \<longleftrightarrow>
     isLower c \<or> isUpper c \<or> isDigit c \<or> reSpace c \<or> c = CHR ''-'' \<or> c = CHR ''_''"

definition MatchString_name :: "string \<Rightarrow> bool" where
  "MatchString_name s \<longleftrightarrow> s \<noteq> [] \<and> list_all nameClass s"

text \<open>
  \<^verbatim>\<open>regexp.MustCompile(`[^a-z0-9]+`).ReplaceAllString(s, "-")\<close>: matches are found from
  left to right, each as long as possible, and each is replaced by one hyphen. A rune
  outside ASCII consists of bytes from 0x80 on only, all of them outside \<^verbatim>\<open>[a-z0-9]\<close>,
  so the runs of runs and the runs of bytes are the same.
\<close>

definition slugChar :: "char \<Rightarrow> bool" where
  "slugChar c \<longleftrightarrow> isLower c \<or> isDigit c"

function ReplaceAllString_nonslug :: "string \<Rightarrow> string \<Rightarrow> string" where
  "ReplaceAllString_nonslug [] repl = []"
| "ReplaceAllString_nonslug (c # s) repl =
     (if slugChar c then c # ReplaceAllString_nonslug s repl
      else repl @ ReplaceAllString_nonslug (dropWhile (\<lambda>x. \<not> slugChar x) s) repl)"
  by pat_completeness auto
termination
  by (relation "measure (\<lambda>(s, repl). length s)")
     (auto simp: less_Suc_eq_le length_dropWhile_le)

section \<open>encoding/json: the scanner\<close>

text \<open>
  Both decoders of the repository go through the scanner of Go's \<^verbatim>\<open>encoding/json\<close>, a
  state machine that is fed one byte at a time and keeps a stack of the objects and
  arrays it is inside. \<^verbatim>\<open>json.Unmarshal\<close> first runs it over the whole input
  (\<^verbatim>\<open>checkValid\<close>) and fails on anything but one JSON value with white space around it.
  \<^verbatim>\<open>Decoder.Decode\<close> uses it to find where the first value of the input ends
  (\<^verbatim>\<open>readValue\<close>) and does not look at what follows. The scanner is written out here
  state by state; \<open>stepFn\<close> is the state function the scanner will call next, the head
  of \<open>parseState\<close> is the innermost open object or array.
\<close>

datatype scan_code =
    scanContinue | scanBeginLiteral | scanBeginObject | scanObjectKey | scanObjectValue
  | scanEndObject | scanBeginArray | scanArrayValue | scanEndArray | scanSkipSpace
  | scanEnd | scanError

datatype parse_state = parseObjectKey | parseObjectValue | parseArrayValue

datatype step_fn =
    stBeginValueOrEmpty | stBeginValue | stBeginStringOrEmpty | stBeginString
  | stEndValue | stEndTop
  | stInString | stInStringEsc | stInStringEscU | stInStringEscU1 | stInStringEscU12
  | stInStringEscU123
  | stNeg | st1 | st0 | stDot | stDot0 | stE | stESign | stE0
  | stT | stTr | stTru | stF | stFa | stFal | stFals | stN | stNu | stNul
  | stError

record scanner =
  stepFn :: step_fn
  parseState :: "parse_state list"
  hasErr :: bool
  endTop :: bool

definition maxNestingDepth :: nat where
  "maxNestingDepth = 10000"

definition reset :: scanner where
  "reset = \<lparr>stepFn = stBeginValue, parseState = [], hasErr = False, endTop = False\<rparr>"

definition scanner_error :: "scanner \<Rightarrow> scan_code \<times> scanner" where
  "scanner_error s = (scanError, s\<lparr>stepFn := stError, hasErr := True\<rparr>)"

definition isSpace :: "char \<Rightarrow> bool" where
  "isSpace c \<longleftrightarrow> c = CHR '' '' \<or> c = CHR 0x09 \<or> c = CHR 0x0D \<or> c = CHR 0x0A"

definition isDigit19 :: "char \<Rightarrow> bool" where
  "isDigit19 c \<longleftrightarrow> CHR ''1'' \<le> c \<and> c \<le> CHR ''9''"

definition isHex :: "char \<Rightarrow> bool" where
  "isHex c \<longleftrightarrow> (CHR ''0'' \<le> c \<and> c \<le> CHR ''9'') \<or> (CHR ''a'' \<le> c \<and> c \<le> CHR ''f'')
       \<or> (CHR ''A'' \<le> c \<and> c \<le> CHR ''F'')"

definition pushParseState :: "scanner \<Rightarrow> parse_state \<Rightarrow> scan_code \<Rightarrow> scan_code \<times> scanner" where
  "pushParseState s newParseState successState =
     (let s' = s\<lparr>parseState := newParseState # parseState s\<rparr>
      in if length (parseState s') \<le> maxNestingDepth then (successState, s')
         else scanner_error s')"

definition popParseState :: "scanner \<Rightarrow> scanner" where
  "popParseState s =
     (let rest = tl (parseState s)
      in if rest = [] then s\<lparr>parseState := rest, stepFn := stEndTop, endTop := True\<rparr>
         else s\<lparr>parseState := rest, stepFn := stEndValue\<rparr>)"

definition stateEndTop :: "scanner \<Rightarrow> char \<Rightarrow> scan_code \<times> scanner" where
  "stateEndTop s c = (if \<not> isSpace c then (scanEnd, snd (scanner_error s)) else (scanEnd, s))"

definition stateEndValue :: "scanner \<Rightarrow> char \<Rightarrow> scan_code \<times> scanner" where
  "stateEndValue s c =
     (case parseState s of
        [] \<Rightarrow> stateEndTop (s\<lparr>stepFn := stEndTop, endTop := True\<rparr>) c
      | ps # rest \<Rightarrow>
          if isSpace c then (scanSkipSpace, s\<lparr>stepFn := stEndValue\<rparr>)
          else (case ps of
                  parseObjectKey \<Rightarrow>
                    if c = CHR '':''
                    then (scanObjectKey,
                          s\<lparr>parseState := parseObjectValue # rest, stepFn := stBeginValue\<rparr>)
                    else scanner_error s
                | parseObjectValue \<Rightarrow>
                    if c = CHR '',''
                    then (scanObjectValue,
                          s\<lparr>parseState := parseObjectKey # rest, stepFn := stBeginString\<rparr>)
                    else if c = CHR ''}'' then (scanEndObject, popParseState s)
                    else scanner_error s
                | parseArrayValue \<Rightarrow>
                    if c = CHR '','' then (scanArrayValue, s\<lparr>stepFn := stBeginValue\<rparr>)
                    else if c = CHR '']'' then (scanEndArray, popParseState s)
                    else scanner_error s))"

definition stateBeginValue :: "scanner \<Rightarrow> char \<Rightarrow> scan_code \<times> scanner" where
  "stateBeginValue s c =
     (if isSpace c then (scanSkipSpace, s)
      else if c = CHR ''{''
      then pushParseState (s\<lparr>stepFn := stBeginStringOrEmpty\<rparr>) parseObjectKey scanBeginObject
      else if c = CHR ''[''
      then pushParseState (s\<lparr>stepFn := stBeginValueOrEmpty\<rparr>) parseArrayValue scanBeginArray
      else if c = CHR 0x22 then (scanBeginLiteral, s\<lparr>stepFn := stInString\<rparr>)
      else if c = CHR ''-'' then (scanBeginLiteral, s\<lparr>stepFn := stNeg\<rparr>)
      else if c = CHR ''0'' then (scanBeginLiteral, s\<lparr>stepFn := st0\<rparr>)
      else if c = CHR ''t'' then (scanBeginLiteral, s\<lparr>stepFn := stT\<rparr>)
      else if c = CHR ''f'' then (scanBeginLiteral, s\<lparr>stepFn := stF\<rparr>)
      else if c = CHR ''n'' then (scanBeginLiteral, s\<lparr>stepFn := stN\<rparr>)
      else if isDigit19 c then (scanBeginLiteral, s\<lparr>stepFn := st1\<rparr>)
      else scanner_error s)"

definition stateBeginValueOrEmpty :: "scanner \<Rightarrow> char \<Rightarrow> scan_code \<times> scanner" where
  "stateBeginValueOrEmpty s c =
     (if isSpace c then (scanSkipSpace, s)
      else if c = CHR '']'' then stateEndValue s c
      else stateBeginValue s c)"

definition stateBeginString :: "scanner \<Rightarrow> char \<Rightarrow> scan_code \<times> scanner" where
  "stateBeginString s c =
     (if isSpace c then (scanSkipSpace, s)
      else if c = CHR 0x22 then (scanBeginLiteral, s\<lparr>stepFn := stInString\<rparr>)
      else scanner_error s)"

definition stateBeginStringOrEmpty :: "scanner \<Rightarrow> char \<Rightarrow> scan_code \<times> scanner" where
  "stateBeginStringOrEmpty s c =
     (if isSpace c then (scanSkipSpace, s)
      else if c = CHR ''}''
      then stateEndValue (s\<lparr>parseState := parseObjectValue # tl (parseState s)\<rparr>) c
      else stateBeginString s c)"

definition stateInString :: "scanner \<Rightarrow> char \<Rightarrow> scan_code \<times> scanner" where
  "stateInString s c =
     (if c = CHR 0x22 then (scanContinue, s\<lparr>stepFn := stEndValue\<rparr>)
      else if c = CHR 0x5C then (scanContinue, s\<lparr>stepFn := stInStringEsc\<rparr>)
      else if c < CHR 0x20 then scanner_error s
      else (scanContinue, s))"

definition stateInStringEsc :: "scanner \<Rightarrow> char \<Rightarrow> scan_code \<times> scanner" where
  "stateInStringEsc s c =
     (if c = CHR ''b'' \<or> c = CHR ''f'' \<or> c = CHR ''n'' \<or> c = CHR ''r'' \<or> c = CHR ''t''
         \<or> c = CHR 0x5C \<or> c = CHR ''/'' \<or> c = CHR 0x22
      then (scanContinue, s\<lparr>stepFn := stInString\<rparr>)
      else if c = CHR ''u'' then (scanContinue, s\<lparr>stepFn := stInStringEscU\<rparr>)
      else scanner_error s)"

definition expectHex :: "step_fn \<Rightarrow> scanner \<Rightarrow> char \<Rightarrow> scan_code \<times> scanner" where
  "expectHex next s c =
     (if isHex c then (scanContinue, s\<lparr>stepFn := next\<rparr>) else scanner_error s)"

definition expectByte :: "char \<Rightarrow> step_fn \<Rightarrow> scanner \<Rightarrow> char \<Rightarrow> scan_code \<times> scanner" where
  "expectByte want next s c =
     (if c = want then (scanContinue, s\<lparr>stepFn := next\<rparr>) else scanner_error s)"

definition stateNeg :: "scanner \<Rightarrow> char \<Rightarrow> scan_code \<times> scanner" where
  "stateNeg s c =
     (if c = CHR ''0'' then (scanContinue, s\<lparr>stepFn := st0\<rparr>)
      else if isDigit19 c then (scanContinue, s\<lparr>stepFn := st1\<rparr>)
      else scanner_error s)"

definition state0 :: "scanner \<Rightarrow> char \<Rightarrow> scan_code \<times> scanner" where
  "state0 s c =
     (if c = CHR ''.'' then (scanContinue, s\<lparr>stepFn := stDot\<rparr>)
      else if c = CHR ''e'' \<or> c = CHR ''E'' then (scanContinue, s\<lparr>stepFn := stE\<rparr>)
      else stateEndValue s c)"

definition state1 :: "scanner \<Rightarrow> char \<Rightarrow> scan_code \<times> scanner" where
  "state1 s c =
     (if isDigit c then (scanContinue, s\<lparr>stepFn := st1\<rparr>) else state0 s c)"

definition stateDot :: "scanner \<Rightarrow> char \<Rightarrow> scan_code \<times> scanner" where
  "stateDot s c =
     (if isDigit c then (scanContinue, s\<lparr>stepFn := stDot0\<rparr>) else scanner_error s)"

definition stateDot0 :: "scanner \<Rightarrow> char \<Rightarrow> scan_code \<times> scanner" where
  "stateDot0 s c =
     (if isDigit c then (scanContinue, s)
      else if c = CHR ''e'' \<or> c = CHR ''E'' then (scanContinue, s\<lparr>stepFn := stE\<rparr>)
      else stateEndValue s c)"

definition stateESign :: "scanner \<Rightarrow> char \<Rightarrow> scan_code \<times> scanner" where
  "stateESign s c =
     (if isDigit c then (scanContinue, s\<lparr>stepFn := stE0\<rparr>) else scanner_error s)"

definition stateE :: "scanner \<Rightarrow> char \<Rightarrow> scan_code \<times> scanner" where
  "stateE s c =
     (if c = CHR ''+'' \<or> c = CHR ''-'' then (scanContinue, s\<lparr>stepFn := stESign\<rparr>)
      else stateESign s c)"

definition stateE0 :: "scanner \<Rightarrow> char \<Rightarrow> scan_code \<times> scanner" where
  "stateE0 s c = (if isDigit c then (scanContinue, s) else stateEndValue s c)"

definition step :: "scanner \<Rightarrow> char \<Rightarrow> scan_code \<times> scanner" where
  "step s c =
     (case stepFn s of
        stBeginValueOrEmpty \<Rightarrow> stateBeginValueOrEmpty s c
      | stBeginValue \<Rightarrow> stateBeginValue s c
      | stBeginStringOrEmpty \<Rightarrow> stateBeginStringOrEmpty s c
      | stBeginString \<Rightarrow> stateBeginString s c
      | stEndValue \<Rightarrow> stateEndValue s c
      | stEndTop \<Rightarrow> stateEndTop s c
      | stInString \<Rightarrow> stateInString s c
      | stInStringEsc \<Rightarrow> stateInStringEsc s c
      | stInStringEscU \<Rightarrow> expectHex stInStringEscU1 s c
      | stInStringEscU1 \<Rightarrow> expectHex stInStringEscU12 s c
      | stInStringEscU12 \<Rightarrow> expectHex stInStringEscU123 s c
      | stInStringEscU123 \<Rightarrow> expectHex stInString s c
      | stNeg \<Rightarrow> stateNeg s c
      | st1 \<Rightarrow> state1 s c
      | st0 \<Rightarrow> state0 s c
      | stDot \<Rightarrow> stateDot s c
      | stDot0 \<Rightarrow> stateDot0 s c
      | stE \<Rightarrow> stateE s c
      | stESign \<Rightarrow> stateESign s c
      | stE0 \<Rightarrow> stateE0 s c
      | stT \<Rightarrow> expectByte (CHR ''r'') stTr s c
      | stTr \<Rightarrow> expectByte (CHR ''u'') stTru s c
      | stTru \<Rightarrow> expectByte (CHR ''e'') stEndValue s c
      | stF \<Rightarrow> expectByte (CHR ''a'') stFa s c
      | stFa \<Rightarrow> expectByte (CHR ''l'') stFal s c
      | stFal \<Rightarrow> expectByte (CHR ''s'') stFals s c
      | stFals \<Rightarrow> expectByte (CHR ''e'') stEndValue s c
      | stN \<Rightarrow> expectByte (CHR ''u'') stNu s c
      | stNu \<Rightarrow> expectByte (CHR ''l'') stNul s c
      | stNul \<Rightarrow> expectByte (CHR ''l'') stEndValue s c
      | stError \<Rightarrow> (scanError, s))"

definition eof :: "scanner \<Rightarrow> scan_code" where
  "eof s =
     (if hasErr s then scanError
      else if endTop s then scanEnd
      else if endTop (snd (step s (CHR '' ''))) then scanEnd
      else scanError)"

fun checkValid_from :: "scanner \<Rightarrow> string \<Rightarrow> bool" where
  "checkValid_from s [] = (eof s \<noteq> scanError)"
| "checkValid_from s (c # cs) =
     (case step s c of
        (scanError, s') \<Rightarrow> False
      | (code, s') \<Rightarrow> checkValid_from s' cs)"

definition checkValid :: "string \<Rightarrow> bool" where
  "checkValid data = checkValid_from reset data"

datatype read_result = ValueEnds nat | SyntaxError | EndOfInput

fun readValue_from :: "scanner \<Rightarrow> nat \<Rightarrow> string \<Rightarrow> read_result" where
  "readValue_from s scanp [] =
     (if fst (step s (CHR '' '')) = scanEnd then ValueEnds scanp else EndOfInput)"
| "readValue_from s scanp (c # cs) =
     (case step s c of
        (scanEnd, s') \<Rightarrow> ValueEnds scanp
      | (scanError, s') \<Rightarrow> SyntaxError
      | (code, s') \<Rightarrow>
          if code = scanEndObject \<or> code = scanEndArray
          then (case stateEndValue s' (CHR '' '') of
                  (scanEnd, s'') \<Rightarrow> ValueEnds (Suc scanp)
                | (code', s'') \<Rightarrow> readValue_from s'' (Suc scanp) cs)
          else readValue_from s' (Suc scanp) cs)"

definition readValue :: "string \<Rightarrow> read_result" where
  "readValue buf = readValue_from reset 0 buf"

text \<open>
  The states the scanner is in while it has neither stopped nor failed: no error is
  recorded, the end state is entered only with \<open>endTop\<close> set, and an array element is
  awaited only inside an array.
\<close>

definition scanning :: "scanner \<Rightarrow> bool" where
  "scanning s \<longleftrightarrow>
     \<not> hasErr s \<and> (stepFn s = stEndTop \<longrightarrow> endTop s)
     \<and> (stepFn s = stBeginValueOrEmpty \<longrightarrow> parseState s \<noteq> [])"

section \<open>Data model\<close>

text \<open>
  A Go \<^verbatim>\<open>error\<close> is represented by its message, \<^verbatim>\<open>err.Error()\<close>. A
  \<^verbatim>\<open>map[string]string\<close> is a partial function; indexing it with a key that is absent
  gives the zero value, the empty string.
\<close>

type_synonym go_error = string

type_synonym string_map = "string \<rightharpoonup> string"

definition index :: "string_map \<Rightarrow> string \<Rightarrow> string" where
  "index m k = (case m k of None \<Rightarrow> [] | Some v \<Rightarrow> v)"

subsection \<open>shared/models\<close>

record Workspace =
  ID :: string
  Name :: string
  Slug :: string
  TeamID :: string
  OwnerID :: string
  CreatedAt :: string
  Status :: string
  Plan :: string
  TenantID :: string

record WorkspaceCreateRequest =
  Name :: string
  Description :: string
  Plan :: string

record WorkspaceResponse =
  Success :: bool
  Workspace :: Workspace
  Message :: string
  Error :: string

record APIError =
  Code :: string
  Message :: string
  Field :: string

record ErrorResponse =
  Success :: bool
  Error :: APIError

definition NewErrorResponse :: "string \<Rightarrow> string \<Rightarrow> string \<Rightarrow> ErrorResponse" where
  "NewErrorResponse code message field =
     \<lparr>ErrorResponse.Success = False,
      ErrorResponse.Error = \<lparr>Code = code, APIError.Message = message, Field = field\<rparr>\<rparr>"

subsection \<open>shared/middleware\<close>

record SessionInfo =
  UserID :: string
  SessionID :: string
  Email :: string
  Name :: string

subsection \<open>functions/create-workspace\<close>

record AppwriteFunctionRequest =
  Headers :: string_map
  Body :: string
  Env :: string_map

text \<open>
  The \<^verbatim>\<open>Body\<close> of a response is the text \<^verbatim>\<open>json.Marshal\<close> produces from an
  \<^verbatim>\<open>ErrorResponse\<close> or a \<^verbatim>\<open>WorkspaceResponse\<close>. The serialisation itself is not
  modelled: the body is kept as the value that is marshalled.
\<close>

datatype json_body = ErrorJSON ErrorResponse | WorkspaceJSON WorkspaceResponse

record AppwriteFunctionResponse =
  StatusCode :: int
  Body :: json_body

subsection \<open>The platform SDK and the process environment\<close>

text \<open>
  What the handler uses of \<^verbatim>\<open>github.com/appwrite/sdk-for-go\<close>: a client (an endpoint
  and a header table), and the values the services return, of which the handler reads
  the fields below.
\<close>

record Client =
  Endpoint :: string
  Headers :: string_map

definition AddHeader :: "Client \<Rightarrow> string \<Rightarrow> string \<Rightarrow> Client" where
  "AddHeader c k v = c\<lparr>Client.Headers := (Client.Headers c)(k \<mapsto> v)\<rparr>"

record User =
  Id :: string
  Email :: string
  Name :: string

record Team =
  Id :: string

record Document =
  Id :: string

subsection \<open>shared/services\<close>

record WebhookPayload =
  Event :: string
  Timestamp :: string
  Data :: "(string \<times> string) list"

text \<open>An \<^verbatim>\<open>http.Request\<close> as \<^verbatim>\<open>SendWelcomeWebhook\<close> builds it.\<close>

record HttpRequest =
  Method :: string
  URL :: string
  Header :: string_map
  Body :: string

subsection \<open>Effects\<close>

text \<open>
  Everything outside the repository is a field of \<open>platform\<close>: the process environment,
  the clock, the SDK's services (each a function from the client and the arguments of the
  call to an error or a value), the JSON decoders, the Unicode path of
  \<^verbatim>\<open>strings.ToLower\<close> and the HTTP transport. Of the JSON decoders the platform
  holds what comes after the scanner: the text of a syntax error, and the storing of a
  scanned value into the request structures.
\<close>

record platform =
  os_Getenv :: "string \<Rightarrow> string"
  time_Now :: string
  client_New :: Client
  account_Get :: "Client \<Rightarrow> go_error + User"
  teams_Create :: "Client \<Rightarrow> string \<Rightarrow> string \<Rightarrow> go_error + Team"
  databases_CreateDocument ::
    "Client \<Rightarrow> string \<Rightarrow> string \<Rightarrow> string \<Rightarrow> (string \<times> string) list \<Rightarrow> string list
       \<Rightarrow> go_error + Document"
  json_SyntaxError :: "string \<Rightarrow> go_error"
  unmarshal_WorkspaceCreateRequest :: "string \<Rightarrow> go_error + WorkspaceCreateRequest"
  unmarshal_AppwriteFunctionRequest :: "string \<Rightarrow> go_error + AppwriteFunctionRequest"
  json_Marshal :: "WebhookPayload \<Rightarrow> go_error + string"
  unicode_ToLower :: "string \<Rightarrow> string"
  http_NewRequest :: "string \<Rightarrow> string \<Rightarrow> go_error option"
  http_Do :: "HttpRequest \<Rightarrow> go_error + int"

text \<open>
  The trace of an invocation: the calls it makes to the outside, each with what it
  returned where the caller reads it, and the lines it writes to the log.
\<close>

datatype event =
    Log string
  | AccountGet Client "go_error + User"
  | TeamsCreate Client string string "go_error + Team"
  | TeamsDelete Client string
  | CreateDocument Client string string string "(string \<times> string) list" "string list"
      "go_error + Document"
  | HttpDo HttpRequest "go_error + int"

fun is_creation_call :: "event \<Rightarrow> bool" where
  "is_creation_call (TeamsCreate c i n r) = True"
| "is_creation_call (CreateDocument c d k i doc ps r) = True"
| "is_creation_call e = False"


fun is_http_call :: "event \<Rightarrow> bool" where
  "is_http_call (HttpDo rq r) = True"
| "is_http_call e = False"

fun is_log :: "event \<Rightarrow> bool" where
  "is_log (Log l) = True"
| "is_log e = False"


fun document_target :: "event \<Rightarrow> (string \<times> string) option" where
  "document_target (CreateDocument c d k i doc ps r) = Some (d, k)"
| "document_target e = None"


definition document_targets :: "event list \<Rightarrow> (string \<times> string) list" where
  "document_targets tr = List.map_filter document_target tr"

section \<open>encoding/json: the two decoders\<close>

text \<open>
  \<^verbatim>\<open>json.Unmarshal(data, &v)\<close> checks the whole of \<open>data\<close> with the scanner and then
  stores the value. \<^verbatim>\<open>json.NewDecoder(r).Decode(&v)\<close>, called once, reads the first
  value of the input, fails with a syntax error or at the end of the input when there is
  none, and stores that value; the bytes after it stay unread.
\<close>

definition json_Unmarshal :: "platform \<Rightarrow> string \<Rightarrow> go_error + WorkspaceCreateRequest" where
  "json_Unmarshal w data =
     (if \<not> checkValid data then Inl (json_SyntaxError w data)
      else unmarshal_WorkspaceCreateRequest w data)"

definition nonSpace :: "string \<Rightarrow> bool" where
  "nonSpace b = list_ex (\<lambda>c. \<not> isSpace c) b"

definition Decoder_Decode :: "platform \<Rightarrow> string \<Rightarrow> go_error + AppwriteFunctionRequest" where
  "Decoder_Decode w input =
     (case readValue input of
        SyntaxError \<Rightarrow> Inl (json_SyntaxError w input)
      | EndOfInput \<Rightarrow> Inl (if nonSpace input then ''unexpected EOF'' else ''EOF'')
      | ValueEnds n \<Rightarrow> unmarshal_AppwriteFunctionRequest w (take n input))"

section \<open>shared/middleware: the gates of the handler\<close>

text \<open>\<^verbatim>\<open>VerifyTrigger\<close> returns the error, or \<open>None\<close> for \<^verbatim>\<open>nil\<close>.\<close>

definition VerifyTrigger :: "string_map \<Rightarrow> go_error option" where
  "VerifyTrigger headers =
     (let trigger = index headers ''x-appwrite-trigger''
      in if trigger = [] then Some ''missing x-appwrite-trigger header'' else None)"

text \<open>
  \<^verbatim>\<open>AuthenticateUser\<close> configures a client from the process environment (the names it
  passes to \<^verbatim>\<open>os.Getenv\<close> are the literals of the source), adds the session header and
  asks the account service for the current user. The service is created from the client
  before the session header is added and shares the client's header table, so the call
  is made with all four settings.
\<close>

definition AuthenticateUser ::
  "platform \<Rightarrow> string_map \<Rightarrow> (go_error + SessionInfo) \<times> event list" where
  "AuthenticateUser w headers =
     (let sessionToken = index headers ''x-appwrite-session''
      in if sessionToken = [] then (Inl ''missing authentication token'', [])
         else
           (let c0 = (client_New w)\<lparr>Endpoint := os_Getenv w ''https://nyc.cloud.appwrite.io/v1''\<rparr>;
                c1 = AddHeader c0 ''X-Appwrite-Project'' (os_Getenv w ''6951e0720014e1d2dcd1'');
                c2 = AddHeader c1 ''X-Appwrite-Key''
                       (os_Getenv w
                          ''standard_9906d29e359416405f9ac01658e15162e9234ae0aad0862ca1795533487bedafe72c254b626b895bb0848f90a873f9c47ad1af4e7c585315f50b87044862dcb08df0c6aa7f8edb619b8a7d64a96d8e079feb6916a887e3ca1e84014d51817d0b01374e76a5b6896f4da36622176a724dc5c0be240723101b64ceb22cd337db35'');
                appwriteClient = AddHeader c2 ''X-Appwrite-Session'' sessionToken;
                r = account_Get w appwriteClient
            in case r of
                 Inl err \<Rightarrow>
                   (Inl (''authentication failed: '' @ err), [AccountGet appwriteClient r])
               | Inr user \<Rightarrow>
                   (Inr \<lparr>UserID = User.Id user, SessionID = sessionToken,
                         SessionInfo.Email = User.Email user,
                         SessionInfo.Name = User.Name user\<rparr>,
                    [AccountGet appwriteClient r])))"

definition ValidateInput :: "platform \<Rightarrow> string \<Rightarrow> go_error + WorkspaceCreateRequest" where
  "ValidateInput w body =
     (if TrimSpace body = [] then Inl ''request body is empty''
      else case json_Unmarshal w body of
             Inl err \<Rightarrow> Inl (''invalid JSON: '' @ err)
           | Inr target \<Rightarrow> Inr target)"

section \<open>shared/services: SendWelcomeWebhook\<close>

text \<open>\<^verbatim>\<open>fmt\<close>'s \<^verbatim>\<open>%d\<close> for an \<^verbatim>\<open>int\<close>.\<close>

function utoa :: "nat \<Rightarrow> string" where
  "utoa n =
     (if n < 10 then [char_of (of_char CHR ''0'' + n)]
      else utoa (n div 10) @ [char_of (of_char CHR ''0'' + n mod 10)])"
  by pat_completeness auto
termination
  by (relation "measure id") auto

definition itoa :: "int \<Rightarrow> string" where
  "itoa i = (if i < 0 then CHR ''-'' # utoa (nat (- i)) else utoa (nat i))"

definition SendWelcomeWebhook ::
  "platform \<Rightarrow> string \<Rightarrow> string \<Rightarrow> string \<Rightarrow> go_error option \<times> event list" where
  "SendWelcomeWebhook w workspaceName userEmail teamID =
     (let webhookURL = os_Getenv w ''WEBHOOK_URL'';
          apiKey = os_Getenv w ''WEBHOOK_API_KEY''
      in if webhookURL = [] \<or> apiKey = [] then (Some ''webhook configuration missing'', [])
         else
           (let payload =
                  \<lparr>Event = ''workspace.created'', Timestamp = time_Now w,
                   Data = [(''workspaceName'', workspaceName), (''userEmail'', userEmail),
                           (''teamId'', teamID)]\<rparr>
            in case json_Marshal w payload of
                 Inl err \<Rightarrow> (Some (''failed to marshal payload: '' @ err), [])
               | Inr jsonData \<Rightarrow>
                   (case http_NewRequest w ''POST'' webhookURL of
                      Some err \<Rightarrow> (Some (''failed to create request: '' @ err), [])
                    | None \<Rightarrow>
                        (let rq =
                               \<lparr>Method = ''POST'', URL = webhookURL,
                                Header =
                                  [''Content-Type'' \<mapsto> ''application/json'',
                                   ''Authorization'' \<mapsto> ''Bearer '' @ apiKey,
                                   ''X-Webhook-Source'' \<mapsto> ''appwrite-function''],
                                HttpRequest.Body = jsonData\<rparr>;
                             r = http_Do w rq
                         in case r of
                              Inl err \<Rightarrow>
                                (Some (''failed to send webhook: '' @ err), [HttpDo rq r])
                            | Inr status \<Rightarrow>
                                if status < 200 \<or> status \<ge> 300
                                then (Some (''webhook returned status '' @ itoa status),
                                      [HttpDo rq r])
                                else (None, [HttpDo rq r])))))"

section \<open>functions/create-workspace\<close>

definition generateSlug :: "(string \<Rightarrow> string) \<Rightarrow> string \<Rightarrow> string" where
  "generateSlug unicodeToLower name =
     (let slug0 = ToLower unicodeToLower name;
          slug1 = ReplaceAllString_nonslug slug0 ''-'';
          slug2 = Trim slug1 ''-''
      in slug2)"

text \<open>A placeholder in the source: it returns \<^verbatim>\<open>("", nil)\<close> whatever it is given.\<close>

definition initializeWorkspaceCollection ::
  "Client \<Rightarrow> string \<Rightarrow> string \<Rightarrow> string \<Rightarrow> string \<times> go_error option" where
  "initializeWorkspaceCollection dbService databaseID workspaceName teamID = ([], None)"

text \<open>
  The handler's own \<^verbatim>\<open>sendWelcomeWebhook\<close>. Where the request would be made the source
  has a comment (``In a real implementation, you would make an HTTP request here'') and
  a log line; it makes no call.
\<close>

definition sendWelcomeWebhook ::
  "string_map \<Rightarrow> string \<Rightarrow> string \<Rightarrow> string \<Rightarrow> go_error option \<times> event list" where
  "sendWelcomeWebhook env workspaceName userEmail teamID =
     (let webhookURL = index env ''WEBHOOK_URL''
      in if webhookURL = [] then (Some ''webhook URL not configured'', [])
         else
           (let apiKey = index env ''WEBHOOK_API_KEY''
            in if apiKey = [] then (Some ''webhook API key not configured'', [])
               else (None,
                     [Log (''Would send webhook to '' @ webhookURL @ '' for workspace '' @
                           workspaceName @ '' (team: '' @ teamID @ '')'')])))"

definition respondError ::
  "int \<Rightarrow> string \<Rightarrow> string \<Rightarrow> string \<Rightarrow> AppwriteFunctionResponse" where
  "respondError statusCode code message field =
     (let errorResp = NewErrorResponse code message field
      in \<lparr>StatusCode = statusCode, AppwriteFunctionResponse.Body = ErrorJSON errorResp\<rparr>)"

text \<open>
  \<^verbatim>\<open>handleRequest\<close> returns the response together with the trace of the invocation. The
  steps are numbered as in the source. \<^verbatim>\<open>CHR 0x22\<close> is the double quote of the
  permission strings.
\<close>

definition handleRequest ::
  "platform \<Rightarrow> AppwriteFunctionRequest \<Rightarrow> AppwriteFunctionResponse \<times> event list" where
  "handleRequest w req =
     \<comment> \<open>Step 1: verify the trigger\<close>
     (case VerifyTrigger (AppwriteFunctionRequest.Headers req) of
        Some err \<Rightarrow> (respondError 401 ''UNAUTHORIZED'' err [], [])
      | None \<Rightarrow>
     \<comment> \<open>Step 2: authenticate the user\<close>
     (case AuthenticateUser w (AppwriteFunctionRequest.Headers req) of
        (Inl err, t2) \<Rightarrow> (respondError 401 ''AUTHENTICATION_FAILED'' err [], t2)
      | (Inr sessionInfo, t2) \<Rightarrow>
     \<comment> \<open>Step 3: parse and validate input\<close>
     (case ValidateInput w (AppwriteFunctionRequest.Body req) of
        Inl err \<Rightarrow> (respondError 400 ''INVALID_INPUT'' err [], t2)
      | Inr createReq \<Rightarrow>
     \<comment> \<open>Step 4: sanitize and validate the workspace name\<close>
     (let workspaceName = SanitizeString (WorkspaceCreateRequest.Name createReq)
      in if workspaceName = []
         then (respondError 400 ''VALIDATION_ERROR'' ''Workspace name is required'' ''name'', t2)
         else if length workspaceName < 3 \<or> length workspaceName > 50
         then (respondError 400 ''VALIDATION_ERROR''
                 ''Workspace name must be between 3 and 50 characters'' ''name'', t2)
         else if \<not> MatchString_name workspaceName
         then (respondError 400 ''VALIDATION_ERROR''
                 ''Workspace name contains invalid characters'' ''name'', t2)
         else
     \<comment> \<open>Step 5: plan\<close>
     (let plan = (if WorkspaceCreateRequest.Plan createReq = [] then ''free''
                  else WorkspaceCreateRequest.Plan createReq);
     \<comment> \<open>Step 6: the admin client\<close>
          c0 = (client_New w)\<lparr>Endpoint := index (Env req) ''APPWRITE_ENDPOINT''\<rparr>;
          c1 = AddHeader c0 ''X-Appwrite-Project'' (index (Env req) ''APPWRITE_PROJECT_ID'');
          appwriteClient = AddHeader c1 ''X-Appwrite-Key'' (index (Env req) ''APPWRITE_API_KEY'');
     \<comment> \<open>Step 7: create the team\<close>
          teamName = workspaceName @ '' Workspace'';
          r7 = teams_Create w appwriteClient ''unique()'' teamName;
          t7 = t2 @ [TeamsCreate appwriteClient ''unique()'' teamName r7]
      in case r7 of
           Inl err \<Rightarrow>
             (respondError 500 ''TEAM_CREATION_FAILED'' ''Failed to create workspace team'' [],
              t7 @ [Log (''Error creating team: '' @ err)])
         | Inr team \<Rightarrow>
     \<comment> \<open>Step 8: create the workspace document\<close>
     (let databaseID = index (Env req) ''6952f51d00043d5bb1d9'';
          collectionID = index (Env req) ''workspaces'';
          slug = generateSlug (unicode_ToLower w) workspaceName;
          createdAt = time_Now w;
          workspaceDoc =
            [(''name'', workspaceName),
             (''slug'', slug),
             (''teamId'', Team.Id team),
             (''ownerId'', UserID sessionInfo),
             (''status'', ''active''),
             (''plan'', plan),
             (''tenantId'', Team.Id team),
             (''createdAt'', createdAt),
             (''description'', Description createReq)];
          permissions =
            [''read('' @ [CHR 0x22] @ ''team:'' @ Team.Id team @ [CHR 0x22] @ '')'',
             ''write('' @ [CHR 0x22] @ ''team:'' @ Team.Id team @ ''[owner]'' @ [CHR 0x22] @ '')''];
          r8 = databases_CreateDocument w appwriteClient databaseID collectionID ''unique()''
                 workspaceDoc permissions;
          t8 = t7 @ [CreateDocument appwriteClient databaseID collectionID ''unique()''
                       workspaceDoc permissions r8]
      in case r8 of
           Inl err \<Rightarrow>
             (respondError 500 ''WORKSPACE_CREATION_FAILED''
                ''Failed to create workspace document'' [],
              t8 @ [Log (''Error creating workspace document: '' @ err),
                    TeamsDelete appwriteClient (Team.Id team)])
         | Inr doc \<Rightarrow>
     \<comment> \<open>Step 9: the private collection (a placeholder)\<close>
     (let t9 = (case snd (initializeWorkspaceCollection appwriteClient databaseID
                            workspaceName (Team.Id team)) of
                  Some err \<Rightarrow>
                    t8 @ [Log (''Warning: Failed to initialize workspace collection: '' @ err)]
                | None \<Rightarrow> t8);
     \<comment> \<open>Step 10: the welcome webhook\<close>
          t10 = (case sendWelcomeWebhook (Env req) workspaceName
                        (SessionInfo.Email sessionInfo) (Team.Id team) of
                   (Some err, tw) \<Rightarrow>
                     t9 @ tw @ [Log (''Warning: Failed to send welcome webhook: '' @ err)]
                 | (None, tw) \<Rightarrow> t9 @ tw);
     \<comment> \<open>Step 11: the success response\<close>
          workspace =
            \<lparr>ID = Document.Id doc,
             Workspace.Name = workspaceName,
             Slug = slug,
             TeamID = Team.Id team,
             OwnerID = UserID sessionInfo,
             CreatedAt = createdAt,
             Status = ''active'',
             Workspace.Plan = plan,
             TenantID = Team.Id team\<rparr>;
          response =
            \<lparr>WorkspaceResponse.Success = True,
             Workspace = workspace,
             WorkspaceResponse.Message = ''Workspace created successfully'',
             WorkspaceResponse.Error = []\<rparr>
      in (\<lparr>StatusCode = 200, AppwriteFunctionResponse.Body = WorkspaceJSON response\<rparr>,
          t10))))))))"

text \<open>
  \<^verbatim>\<open>main\<close> decodes the request from standard input and prints the marshalled response.
  The first component of the result is what is written to standard output, one entry
  for each \<^verbatim>\<open>fmt.Print\<close>. On a decoding error the source calls \<^verbatim>\<open>respondError\<close>
  as a statement, so the value it builds is dropped, and returns.
\<close>

definition main :: "platform \<Rightarrow> string \<Rightarrow> AppwriteFunctionResponse list \<times> event list" where
  "main w stdin =
     (case Decoder_Decode w stdin of
        Inl err \<Rightarrow>
          (let dropped = respondError 500 ''INVALID_REQUEST'' ''Failed to parse request'' []
           in ([], []))
      | Inr req \<Rightarrow>
          (let (response, tr) = handleRequest w req
           in ([response], tr)))"

section \<open>The specification's wording, and concrete invocations\<close>


text \<open>
  The slug as the specification describes its result: the maximal runs of lower-case
  letters and digits of the lower-cased name, in order, joined by single hyphens.
\<close>

function slugWords :: "string \<Rightarrow> string list" where
  "slugWords [] = []"
| "slugWords (c # s) =
     (if slugChar c
      then takeWhile slugChar (c # s) # slugWords (dropWhile slugChar s)
      else slugWords s)"
  by pat_completeness auto
termination
  by (relation "measure length") (auto simp: less_Suc_eq_le length_dropWhile_le)

fun joinWith :: "string \<Rightarrow> string list \<Rightarrow> string" where
  "joinWith sep [] = []"
| "joinWith sep [x] = x"
| "joinWith sep (x # y # ys) = x @ sep @ joinWith sep (y # ys)"

definition specSlug :: "(string \<Rightarrow> string) \<Rightarrow> string \<Rightarrow> string" where
  "specSlug unicodeToLower name = joinWith ''-'' (slugWords (ToLower unicodeToLower name))"

text \<open>
  A request body \<^verbatim>\<open>{"name":"<name>","plan":"<plan>"}\<close>, with the two strings escaped
  as JSON requires (a tab is written \<^verbatim>\<open>\t\<close>), and an invocation carrying it, with both
  headers set.
\<close>

definition hexDigit :: "nat \<Rightarrow> char" where
  "hexDigit n = ''0123456789abcdef'' ! n"

fun json_escape :: "string \<Rightarrow> string" where
  "json_escape [] = []"
| "json_escape (c # cs) =
     (if c = CHR 0x22 then [CHR 0x5C, CHR 0x22]
      else if c = CHR 0x5C then [CHR 0x5C, CHR 0x5C]
      else if c = CHR 0x09 then [CHR 0x5C, CHR ''t'']
      else if c = CHR 0x0A then [CHR 0x5C, CHR ''n'']
      else if c = CHR 0x0D then [CHR 0x5C, CHR ''r'']
      else if c < CHR 0x20
      then [CHR 0x5C, CHR ''u'', CHR ''0'', CHR ''0'',
            hexDigit (of_char c div 16), hexDigit (of_char c mod 16)]
      else [c]) @ json_escape cs"

definition quoted :: "string \<Rightarrow> string" where
  "quoted s = CHR 0x22 # json_escape s @ [CHR 0x22]"

definition example_body :: "string \<Rightarrow> string \<Rightarrow> string" where
  "example_body name plan =
     ''{'' @ quoted ''name'' @ '':'' @ quoted name @ '','' @ quoted ''plan'' @ '':'' @ quoted plan @ ''}''"

definition example_request :: "string \<Rightarrow> string_map \<Rightarrow> AppwriteFunctionRequest" where
  "example_request name env =
     \<lparr>AppwriteFunctionRequest.Headers =
        [''x-appwrite-trigger'' \<mapsto> ''http'', ''x-appwrite-session'' \<mapsto> ''session-1''],
      AppwriteFunctionRequest.Body = example_body name [],
      Env = env\<rparr>"

text \<open>
  A payload for standard input: the object \<^verbatim>\<open>{"headers":{}}\<close> followed by text that is
  not JSON.
\<close>

definition example_payload_value :: string where
  "example_payload_value = ''{'' @ quoted ''headers'' @ '':{}}''"

definition example_payload :: string where
  "example_payload = example_payload_value @ '' trailing-garbage''"

text \<open>
  The process environment of the examples sets the three variables
  \<^verbatim>\<open>AuthenticateUser\<close> reads, under the names it reads them by.
\<close>

definition example_process_env :: string_map where
  "example_process_env =
     [''https://nyc.cloud.appwrite.io/v1'' \<mapsto> ''https://cloud.appwrite.io/v1'',
      ''6951e0720014e1d2dcd1'' \<mapsto> ''project-1'',
      ''standard_9906d29e359416405f9ac01658e15162e9234ae0aad0862ca1795533487bedafe72c254b626b895bb0848f90a873f9c47ad1af4e7c585315f50b87044862dcb08df0c6aa7f8edb619b8a7d64a96d8e079feb6916a887e3ca1e84014d51817d0b01374e76a5b6896f4da36622176a724dc5c0be240723101b64ceb22cd337db35''
        \<mapsto> ''key-1'']"

text \<open>
  A platform that serves the project \<^verbatim>\<open>project-1\<close> at
  \<^verbatim>\<open>https://cloud.appwrite.io/v1\<close>: a client with that endpoint, project and the key
  \<^verbatim>\<open>key-1\<close> is an admin client. The account service knows the session
  \<^verbatim>\<open>session-1\<close>; team creation by an admin client succeeds with the team id
  \<^verbatim>\<open>team-1\<close>; document creation by an admin client returns \<open>docResult\<close>. The decoders
  are tables for the texts of the examples: the body above for an ASCII \<open>name\<close>, which
  Go decodes to that name with the empty plan; the object of the payload above, which Go
  decodes to a request with an empty header table; and the syntax error Go reports for
  the text \<^verbatim>\<open>{not json\<close>.
\<close>

definition admin_client :: "Client \<Rightarrow> bool" where
  "admin_client c \<longleftrightarrow>
     Endpoint c = ''https://cloud.appwrite.io/v1''
     \<and> Client.Headers c ''X-Appwrite-Project'' = Some ''project-1''
     \<and> Client.Headers c ''X-Appwrite-Key'' = Some ''key-1''"

definition example_platform :: "string \<Rightarrow> go_error + Document \<Rightarrow> platform" where
  "example_platform name docResult =
     \<lparr>os_Getenv = index example_process_env,
      time_Now = ''2024-05-01T12:00:00Z'',
      client_New = \<lparr>Endpoint = ''https://cloud.appwrite.io/v1'', Client.Headers = Map.empty\<rparr>,
      account_Get =
        (\<lambda>c. if admin_client c \<and> Client.Headers c ''X-Appwrite-Session'' = Some ''session-1''
             then Inr \<lparr>User.Id = ''user-1'', User.Email = ''ann@example.com'',
                       User.Name = ''Ann''\<rparr>
             else Inl ''user_unauthorized''),
      teams_Create =
        (\<lambda>c i n. if admin_client c then Inr \<lparr>Team.Id = ''team-1''\<rparr>
                 else Inl ''user_unauthorized''),
      databases_CreateDocument =
        (\<lambda>c d k i doc ps. if admin_client c then docResult else Inl ''user_unauthorized''),
      json_SyntaxError =
        (\<lambda>s. ''invalid character '' @ [CHR 0x27] @ ''n'' @ [CHR 0x27]
               @ '' looking for beginning of object key string''),
      unmarshal_WorkspaceCreateRequest =
        (\<lambda>b. if b = example_body name []
             then Inr \<lparr>WorkspaceCreateRequest.Name = name, Description = [],
                       WorkspaceCreateRequest.Plan = []\<rparr>
             else Inl ''json: cannot unmarshal''),
      unmarshal_AppwriteFunctionRequest =
        (\<lambda>v. if v = example_payload_value
             then Inr \<lparr>AppwriteFunctionRequest.Headers = Map.empty,
                       AppwriteFunctionRequest.Body = [], Env = Map.empty\<rparr>
             else Inl ''json: cannot unmarshal''),
      json_Marshal = (\<lambda>p. Inl ''unused''),
      unicode_ToLower = (\<lambda>s. s),
      http_NewRequest = (\<lambda>m u. None),
      http_Do = (\<lambda>rq. Inr 200)\<rparr>"

definition example_env :: string_map where
  "example_env =
     [''APPWRITE_ENDPOINT'' \<mapsto> ''https://cloud.appwrite.io/v1'',
      ''APPWRITE_PROJECT_ID'' \<mapsto> ''project-1'',
      ''APPWRITE_API_KEY'' \<mapsto> ''key-1'',
      ''APPWRITE_DATABASE_ID'' \<mapsto> ''db-main'',
      ''APPWRITE_WORKSPACES_COLLECTION_ID'' \<mapsto> ''col-workspaces'']"

definition example_env_webhook :: string_map where
  "example_env_webhook =
     example_env(''WEBHOOK_URL'' \<mapsto> ''https://hooks.example.com/welcome'',
                 ''WEBHOOK_API_KEY'' \<mapsto> ''secret-1'')"


definition example_document :: Document where
  "example_document = \<lparr>Document.Id = ''doc-1''\<rparr>"

text \<open>
  A payload begins with a JSON value when one of its prefixes is valid JSON, that is,
  passes \<^verbatim>\<open>checkValid\<close>.
\<close>

definition begins_with_json_value :: "string \<Rightarrow> bool" where
  "begins_with_json_value payload =
     list_ex (\<lambda>n. checkValid (take n payload)) [0..<Suc (length payload)]"

section \<open>Properties\<close>

subsection \<open>Helper facts: the events of a run\<close>

lemma AuthenticateUser_events:
  "AuthenticateUser w h = (r, t) \<Longrightarrow> e \<in> set t \<Longrightarrow> \<exists>c u. e = AccountGet c u"
  by (auto simp: AuthenticateUser_def Let_def split: if_splits sum.splits)

lemma AuthenticateUser_no_creation:
  "AuthenticateUser w h = (r, t) \<Longrightarrow> filter is_creation_call t = []"
  by (auto simp: AuthenticateUser_def Let_def split: if_splits sum.splits)


lemma document_targets_simps:
  "document_targets [] = []"
  "document_targets (e # t) = (case document_target e of None \<Rightarrow> document_targets t
                               | Some i \<Rightarrow> i # document_targets t)"
  "document_targets (t @ t') = document_targets t @ document_targets t'"
  by (simp_all add: document_targets_def List.map_filter_def split: option.splits)



lemma AccountGet_only_no_http:
  "\<forall>e \<in> set t. \<exists>c u. e = AccountGet c u \<Longrightarrow> filter is_http_call t = []"
  by (induction t) auto


lemma index_upd_other: "k \<noteq> k' \<Longrightarrow> index (m(k' := v)) k = index m k"
  by (simp add: index_def)

subsection \<open>Helper facts: the JSON scanner\<close>

text \<open>
  While the scanner has neither stopped nor failed it has recorded no error, it is in
  the end state only with \<open>endTop\<close> set, and it waits for an array element only inside
  an array. From that: what \<^verbatim>\<open>readValue\<close> returns as the first value is valid JSON.
\<close>

lemmas state_defs =
  stateBeginValueOrEmpty_def stateBeginValue_def stateBeginStringOrEmpty_def
  stateBeginString_def stateEndValue_def stateEndTop_def stateInString_def
  stateInStringEsc_def expectHex_def expectByte_def stateNeg_def state1_def state0_def
  stateDot_def stateDot0_def stateE_def stateESign_def stateE0_def
  pushParseState_def popParseState_def scanner_error_def

lemma scanning_reset: "scanning reset"
  by (simp add: scanning_def reset_def)

lemma step_scanning:
  "scanning s \<Longrightarrow> step s c = (code, s') \<Longrightarrow> code \<noteq> scanEnd \<Longrightarrow> code \<noteq> scanError
   \<Longrightarrow> scanning s'"
  by (cases "stepFn s")
     (auto simp: step_def scanning_def state_defs Let_def
           split: if_splits list.splits parse_state.splits)

lemma scanEnd_eof:
  "scanning s \<Longrightarrow> fst (step s c) = scanEnd \<Longrightarrow> eof s = scanEnd"
  by (cases "stepFn s")
     (auto simp: step_def scanning_def eof_def state_defs Let_def isSpace_def isDigit_def
           split: if_splits list.splits parse_state.splits)

lemma end_container:
  "scanning s \<Longrightarrow> step s c = (code, s') \<Longrightarrow> code = scanEndObject \<or> code = scanEndArray
   \<Longrightarrow> scanning s' \<and>
       (if parseState s' = [] then fst (stateEndValue s' (CHR '' '')) = scanEnd \<and> endTop s'
        else stateEndValue s' (CHR '' '') = (scanSkipSpace, s'))"
  by (cases "stepFn s")
     (auto simp: step_def scanning_def state_defs Let_def isSpace_def
           split: if_splits list.splits parse_state.splits)

lemma readValue_from_valid:
  "scanning s \<Longrightarrow> readValue_from s scanp xs = ValueEnds n
   \<Longrightarrow> scanp \<le> n \<and> checkValid_from s (take (n - scanp) xs)"
proof (induction xs arbitrary: s scanp)
  case Nil
  then have "fst (step s (CHR '' '')) = scanEnd" "n = scanp"
    by (simp_all split: if_splits)
  with Nil(1) show ?case by (simp add: scanEnd_eof)
next
  case (Cons c cs)
  obtain code s' where st: "step s c = (code, s')" by (cases "step s c")
  show ?case
  proof (cases "code = scanEnd")
    case True
    with Cons.prems st have "n = scanp" by simp
    moreover have "eof s = scanEnd" using scanEnd_eof [OF Cons.prems(1), of c] st True by simp
    ultimately show ?thesis by simp
  next
    case notEnd: False
    show ?thesis
    proof (cases "code = scanError")
      case True
      with Cons.prems st show ?thesis by simp
    next
      case notErr: False
      have s': "scanning s'" by (rule step_scanning [OF Cons.prems(1) st notEnd notErr])
      show ?thesis
      proof (cases "code = scanEndObject \<or> code = scanEndArray")
        case True
        note ec = end_container [OF Cons.prems(1) st True]
        show ?thesis
        proof (cases "parseState s' = []")
          case True
          with ec have e: "fst (stateEndValue s' (CHR '' '')) = scanEnd" "endTop s'" by simp_all
          from e(1) Cons.prems(2) st \<open>code = scanEndObject \<or> code = scanEndArray\<close>
          have "n = Suc scanp"
            by (cases "stateEndValue s' (CHR '' '')") (auto split: scan_code.splits)
          moreover have "eof s' = scanEnd"
            using s' e(2) by (simp add: eof_def scanning_def)
          ultimately show ?thesis using st notErr
            by (cases code) simp_all
        next
          case False
          with ec have e: "stateEndValue s' (CHR '' '') = (scanSkipSpace, s')" by simp
          with Cons.prems(2) st \<open>code = scanEndObject \<or> code = scanEndArray\<close>
          have "readValue_from s' (Suc scanp) cs = ValueEnds n" by auto
          from Cons.IH [OF s' this]
          have "Suc scanp \<le> n" "checkValid_from s' (take (n - Suc scanp) cs)" by simp_all
          then show ?thesis using st notErr
            by (cases code) (simp_all add: take_Cons')
        qed
      next
        case False
        with Cons.prems(2) st notEnd notErr
        have "readValue_from s' (Suc scanp) cs = ValueEnds n"
          by (cases code) simp_all
        from Cons.IH [OF s' this]
        have "Suc scanp \<le> n" "checkValid_from s' (take (n - Suc scanp) cs)" by simp_all
        then show ?thesis using st notErr
          by (cases code) (simp_all add: take_Cons')
      qed
    qed
  qed
qed

lemma readValue_valid: "readValue buf = ValueEnds n \<Longrightarrow> checkValid (take n buf)"
  using readValue_from_valid [OF scanning_reset, of 0 buf n]
  by (simp add: readValue_def checkValid_def)

lemma readValue_begins:
  "readValue buf = ValueEnds n \<Longrightarrow> begins_with_json_value buf"
proof -
  assume "readValue buf = ValueEnds n"
  then have v: "checkValid (take n buf)" by (rule readValue_valid)
  have "take n buf = take (min n (length buf)) buf" by (simp add: min_def)
  with v have "checkValid (take (min n (length buf)) buf)" by simp
  moreover have "min n (length buf) \<in> set [0..<Suc (length buf)]" by auto
  ultimately show ?thesis
    unfolding begins_with_json_value_def list_ex_iff by blast
qed

subsection \<open>Helper facts: the four ways a run can end\<close>

text \<open>
  A run of the handler ends in one of four ways: a gate of steps 1 to 4 rejects the
  request, after at most the account lookup; team creation fails; document creation
  fails and the team is deleted; or both succeed, and what follows in the trace is what
  the webhook step logs.
\<close>

lemma handleRequest_shape:
  assumes run: "handleRequest w req = (resp, tr)"
  obtains
    (rejected) "\<forall>e \<in> set tr. \<exists>c u. e = AccountGet c u" "StatusCode resp \<noteq> 200"
  | (team_failed) t2 c nm err where
      "tr = t2 @ [TeamsCreate c ''unique()'' nm (Inl err), Log (''Error creating team: '' @ err)]"
      "\<forall>e \<in> set t2. \<exists>c u. e = AccountGet c u"
      "resp = respondError 500 ''TEAM_CREATION_FAILED'' ''Failed to create workspace team'' []"
  | (document_failed) t2 c nm team d k doc ps err where
      "tr = t2 @ [TeamsCreate c ''unique()'' nm (Inr team),
                  CreateDocument c d k ''unique()'' doc ps (Inl err),
                  Log (''Error creating workspace document: '' @ err),
                  TeamsDelete c (Team.Id team)]"
      "\<forall>e \<in> set t2. \<exists>c u. e = AccountGet c u"
      "resp = respondError 500 ''WORKSPACE_CREATION_FAILED''
                ''Failed to create workspace document'' []"
  | (created) t2 c nm team d k doc ps document wl and sessionInfo :: SessionInfo
      and createReq ws where
      "tr = t2 @ [TeamsCreate c ''unique()'' nm (Inr team),
                  CreateDocument c d k ''unique()'' doc ps (Inr document)] @ wl"
      "wl = (case sendWelcomeWebhook (Env req)
                    (SanitizeString (WorkspaceCreateRequest.Name createReq))
                    (SessionInfo.Email sessionInfo) (Team.Id team) of
               (Some err, tw) \<Rightarrow>
                 tw @ [Log (''Warning: Failed to send welcome webhook: '' @ err)]
             | (None, tw) \<Rightarrow> tw)"
      "\<forall>e \<in> set t2. \<exists>c u. e = AccountGet c u"
      "ValidateInput w (AppwriteFunctionRequest.Body req) = Inr createReq"
      "resp = \<lparr>StatusCode = 200,
               AppwriteFunctionResponse.Body =
                 WorkspaceJSON
                   \<lparr>WorkspaceResponse.Success = True, Workspace = ws,
                    WorkspaceResponse.Message = ''Workspace created successfully'',
                    WorkspaceResponse.Error = []\<rparr>\<rparr>"
      "Workspace.Plan ws = (if WorkspaceCreateRequest.Plan createReq = [] then ''free''
                            else WorkspaceCreateRequest.Plan createReq)"
      "Status ws = ''active''" "TeamID ws = Team.Id team" "TenantID ws = Team.Id team"
      "ID ws = Document.Id document"
      "Workspace.Name ws = SanitizeString (WorkspaceCreateRequest.Name createReq)"
proof (cases "VerifyTrigger (AppwriteFunctionRequest.Headers req)")
  case (Some e)
  with run have "tr = []" "resp = respondError 401 ''UNAUTHORIZED'' e []"
    by (simp_all add: handleRequest_def)
  then show ?thesis by (intro rejected) (simp_all add: respondError_def)
next
  case None
  obtain ra t2 where auth: "AuthenticateUser w (AppwriteFunctionRequest.Headers req) = (ra, t2)"
    by (cases "AuthenticateUser w (AppwriteFunctionRequest.Headers req)")
  have t2: "\<forall>e \<in> set t2. \<exists>c u. e = AccountGet c u"
    using AuthenticateUser_events [OF auth] by blast
  show ?thesis
  proof (cases ra)
    case (Inl e)
    with run None auth have "tr = t2" "resp = respondError 401 ''AUTHENTICATION_FAILED'' e []"
      by (simp_all add: handleRequest_def)
    with t2 show ?thesis by (intro rejected) (simp_all add: respondError_def)
  next
    case (Inr sessionInfo)
    note si = Inr
    show ?thesis
    proof (cases "ValidateInput w (AppwriteFunctionRequest.Body req)")
      case (Inl e)
      with run None auth si have "tr = t2" "resp = respondError 400 ''INVALID_INPUT'' e []"
        by (simp_all add: handleRequest_def)
      with t2 show ?thesis by (intro rejected) (simp_all add: respondError_def)
    next
      case (Inr createReq)
      note cr = Inr
      define name where "name = SanitizeString (WorkspaceCreateRequest.Name createReq)"
      show ?thesis
      proof (cases "name = [] \<or> length name < 3 \<or> length name > 50 \<or> \<not> MatchString_name name")
        case True
        with run None auth si cr have "tr = t2" "StatusCode resp = 400"
          unfolding name_def
          by (auto simp: handleRequest_def Let_def respondError_def split: if_splits)
        with t2 show ?thesis by (intro rejected) simp_all
      next
        case False
        then have valid: "name \<noteq> []" "\<not> length name < 3" "\<not> length name > 50"
          "MatchString_name name" by simp_all
        define c where "c = AddHeader (AddHeader ((client_New w)\<lparr>Endpoint := index (Env req) ''APPWRITE_ENDPOINT''\<rparr>)
            ''X-Appwrite-Project'' (index (Env req) ''APPWRITE_PROJECT_ID''))
            ''X-Appwrite-Key'' (index (Env req) ''APPWRITE_API_KEY'')"
        show ?thesis
        proof (cases "teams_Create w c ''unique()'' (name @ '' Workspace'')")
          case (Inl err)
          with run None auth si cr valid
          have "tr = t2 @ [TeamsCreate c ''unique()'' (name @ '' Workspace'') (Inl err),
                           Log (''Error creating team: '' @ err)]"
            "resp = respondError 500 ''TEAM_CREATION_FAILED'' ''Failed to create workspace team'' []"
            unfolding name_def c_def
            by (simp_all add: handleRequest_def Let_def)
          with t2 show ?thesis by (intro team_failed)
        next
          case (Inr team)
          note tm = Inr
          define plan where "plan = (if WorkspaceCreateRequest.Plan createReq = [] then ''free''
                  else WorkspaceCreateRequest.Plan createReq)"
          define d where "d = index (Env req) ''6952f51d00043d5bb1d9''"
          define k where "k = index (Env req) ''workspaces''"
          define slug where "slug = generateSlug (unicode_ToLower w) name"
          define doc where "doc =
            [(''name'', name),
             (''slug'', slug),
             (''teamId'', Team.Id team),
             (''ownerId'', UserID sessionInfo),
             (''status'', ''active''),
             (''plan'', plan),
             (''tenantId'', Team.Id team),
             (''createdAt'', time_Now w),
             (''description'', Description createReq)]"
          define ps where "ps =
            [''read('' @ [CHR 0x22] @ ''team:'' @ Team.Id team @ [CHR 0x22] @ '')'',
             ''write('' @ [CHR 0x22] @ ''team:'' @ Team.Id team @ ''[owner]'' @ [CHR 0x22] @ '')'']"
          show ?thesis
          proof (cases "databases_CreateDocument w c d k ''unique()'' doc ps")
            case (Inl err)
            with run None auth si cr valid tm
            have "tr = t2 @ [TeamsCreate c ''unique()'' (name @ '' Workspace'') (Inr team),
                  CreateDocument c d k ''unique()'' doc ps (Inl err),
                  Log (''Error creating workspace document: '' @ err),
                  TeamsDelete c (Team.Id team)]"
              "resp = respondError 500 ''WORKSPACE_CREATION_FAILED''
                ''Failed to create workspace document'' []"
              unfolding name_def c_def d_def k_def doc_def ps_def slug_def plan_def
              by (simp_all add: handleRequest_def Let_def)
            with t2 show ?thesis by (intro document_failed)
          next
            case (Inr document)
            define ws where "ws = \<lparr>ID = Document.Id document,
             Workspace.Name = name,
             Slug = slug,
             TeamID = Team.Id team,
             OwnerID = UserID sessionInfo,
             CreatedAt = time_Now w,
             Status = ''active'',
             Workspace.Plan = plan,
             TenantID = Team.Id team\<rparr>"
            have "snd (handleRequest w req)
               = t2 @ [TeamsCreate c ''unique()'' (name @ '' Workspace'') (Inr team),
                  CreateDocument c d k ''unique()'' doc ps (Inr document)]
               @ (case sendWelcomeWebhook (Env req) name
                         (SessionInfo.Email sessionInfo) (Team.Id team) of
                    (Some err, tw) \<Rightarrow>
                      tw @ [Log (''Warning: Failed to send welcome webhook: '' @ err)]
                  | (None, tw) \<Rightarrow> tw)"
              "fst (handleRequest w req) = \<lparr>StatusCode = 200,
               AppwriteFunctionResponse.Body =
                 WorkspaceJSON
                   \<lparr>WorkspaceResponse.Success = True, Workspace = ws,
                    WorkspaceResponse.Message = ''Workspace created successfully'',
                    WorkspaceResponse.Error = []\<rparr>\<rparr>"
              using None auth si cr valid tm Inr
              unfolding name_def c_def d_def k_def doc_def ps_def slug_def plan_def ws_def
              by (simp_all add: handleRequest_def Let_def initializeWorkspaceCollection_def
                    split: prod.splits option.splits)
            with run
            have trace_eq: "tr = t2 @ [TeamsCreate c ''unique()'' (name @ '' Workspace'') (Inr team),
                  CreateDocument c d k ''unique()'' doc ps (Inr document)]
               @ (case sendWelcomeWebhook (Env req) name
                         (SessionInfo.Email sessionInfo) (Team.Id team) of
                    (Some err, tw) \<Rightarrow>
                      tw @ [Log (''Warning: Failed to send welcome webhook: '' @ err)]
                  | (None, tw) \<Rightarrow> tw)"
              and resp_eq: "resp = \<lparr>StatusCode = 200,
               AppwriteFunctionResponse.Body =
                 WorkspaceJSON
                   \<lparr>WorkspaceResponse.Success = True, Workspace = ws,
                    WorkspaceResponse.Message = ''Workspace created successfully'',
                    WorkspaceResponse.Error = []\<rparr>\<rparr>"
              by simp_all
            have ws_fields: "Workspace.Plan ws = plan" "Status ws = ''active''"
              "TeamID ws = Team.Id team" "TenantID ws = Team.Id team"
              "ID ws = Document.Id document" "Workspace.Name ws = name"
              by (simp_all add: ws_def)
            show ?thesis
              by (rule created [OF trace_eq [unfolded name_def] refl t2 cr resp_eq
                    ws_fields(1) [unfolded plan_def] ws_fields(2-5)
                    ws_fields(6) [unfolded name_def]])
          qed
        qed
      qed
    qed
  qed
qed

text \<open>
  The response does not depend on the two webhook settings of the env map: projecting
  the response through the case distinctions of the handler leaves no trace of them.
\<close>

lemmas push_fst =
  option.case_distrib [of fst] sum.case_distrib [of fst] prod.case_distrib [of fst]
  if_distrib [of fst]

lemma handleRequest_webhook_env_fst:
  "fst (handleRequest w (req\<lparr>Env := (Env req)(''WEBHOOK_URL'' := u, ''WEBHOOK_API_KEY'' := k)\<rparr>))
     = fst (handleRequest w req)"
  by (simp add: handleRequest_def Let_def index_upd_other push_fst
           cong: option.case_cong sum.case_cong prod.case_cong if_cong)

subsection \<open>Helper facts: the concrete invocations\<close>

lemma example_VerifyTrigger:
  "VerifyTrigger (AppwriteFunctionRequest.Headers (example_request name env)) = None"
  by (simp add: VerifyTrigger_def example_request_def index_def)

lemma example_AuthenticateUser:
  "\<exists>t2. AuthenticateUser (example_platform name d) (AppwriteFunctionRequest.Headers (example_request name' env))
     = (Inr \<lparr>UserID = ''user-1'', SessionID = ''session-1'',
              SessionInfo.Email = ''ann@example.com'', SessionInfo.Name = ''Ann''\<rparr>, t2)"
  by (simp add: AuthenticateUser_def example_request_def example_platform_def
        example_process_env_def admin_client_def AddHeader_def index_def Let_def)

lemma example_AuthenticateUser_run:
  "\<exists>c1 u. AuthenticateUser (example_platform name d)
            (AppwriteFunctionRequest.Headers (example_request name' env))
     = (Inr \<lparr>UserID = ''user-1'', SessionID = ''session-1'',
              SessionInfo.Email = ''ann@example.com'', SessionInfo.Name = ''Ann''\<rparr>,
        [AccountGet c1 u])"
  by (simp add: AuthenticateUser_def example_request_def example_platform_def
        example_process_env_def admin_client_def AddHeader_def index_def Let_def)

lemma leadingSpaceWidth_brace [simp]: "leadingSpaceWidth (CHR ''{'' # s) = 0"
  by (cases s rule: leadingSpaceWidth.cases)
     (simp_all add: asciiSpace_def isSpace2_def isSpace3_def)

lemma trailingSpaceWidth_brace [simp]: "trailingSpaceWidth (CHR ''}'' # s) = 0"
  by (cases s rule: trailingSpaceWidth.cases)
     (simp_all add: asciiSpace_def isSpace2_def isSpace3_def)

lemma example_body_not_blank: "TrimSpace (example_body name plan) \<noteq> []"
  by (simp add: TrimSpace_def TrimRightSpace_def example_body_def)

lemma example_ValidateInput:
  "checkValid (example_body name []) \<Longrightarrow>
   ValidateInput (example_platform name d) (AppwriteFunctionRequest.Body (example_request name env))
     = Inr \<lparr>WorkspaceCreateRequest.Name = name, Description = [], WorkspaceCreateRequest.Plan = []\<rparr>"
  by (simp add: ValidateInput_def json_Unmarshal_def example_body_not_blank example_request_def
        example_platform_def)

lemma example_run_created:
  assumes "SanitizeString name = name" "MatchString_name name"
    "3 \<le> length name" "length name \<le> 50" "checkValid (example_body name [])"
    "index env ''APPWRITE_ENDPOINT'' = ''https://cloud.appwrite.io/v1''"
    "index env ''APPWRITE_PROJECT_ID'' = ''project-1''"
    "index env ''APPWRITE_API_KEY'' = ''key-1''"
  shows "\<exists>c1 u c2 doc ps ws.
    handleRequest (example_platform name (Inr document)) (example_request name env)
      = (\<lparr>StatusCode = 200,
          AppwriteFunctionResponse.Body =
            WorkspaceJSON
              \<lparr>WorkspaceResponse.Success = True, Workspace = ws,
               WorkspaceResponse.Message = ''Workspace created successfully'',
               WorkspaceResponse.Error = []\<rparr>\<rparr>,
         [AccountGet c1 u,
          TeamsCreate c2 ''unique()'' (name @ '' Workspace'') (Inr \<lparr>Team.Id = ''team-1''\<rparr>),
          CreateDocument c2 (index env ''6952f51d00043d5bb1d9'') (index env ''workspaces'')
            ''unique()'' doc ps (Inr document)]
         @ (case sendWelcomeWebhook env name ''ann@example.com'' ''team-1'' of
              (Some err, tw) \<Rightarrow> tw @ [Log (''Warning: Failed to send welcome webhook: '' @ err)]
            | (None, tw) \<Rightarrow> tw))
    \<and> Workspace.Name ws = name \<and> Workspace.Plan ws = ''free'' \<and> Status ws = ''active''
    \<and> TeamID ws = ''team-1'' \<and> TenantID ws = ''team-1''"
proof -
  obtain c1 u where auth:
    "AuthenticateUser (example_platform name (Inr document))
            (AppwriteFunctionRequest.Headers (example_request name env))
     = (Inr \<lparr>UserID = ''user-1'', SessionID = ''session-1'',
              SessionInfo.Email = ''ann@example.com'', SessionInfo.Name = ''Ann''\<rparr>,
        [AccountGet c1 u])"
    using example_AuthenticateUser_run by blast
  have name: "name \<noteq> []" "\<not> length name < 3" "\<not> 50 < length name"
    using assms(3,4) by auto
  have env: "Env (example_request name env) = env"
    by (simp add: example_request_def)
  have tc: "teams_Create (example_platform name (Inr document))
               = (\<lambda>c i n. if admin_client c then Inr \<lparr>Team.Id = ''team-1''\<rparr>
                          else Inl ''user_unauthorized'')"
    and cd: "databases_CreateDocument (example_platform name (Inr document))
               = (\<lambda>c d k i doc ps. if admin_client c then Inr document
                                   else Inl ''user_unauthorized'')"
    and cn: "client_New (example_platform name (Inr document))
               = \<lparr>Endpoint = ''https://cloud.appwrite.io/v1'', Client.Headers = Map.empty\<rparr>"
    by (simp_all add: example_platform_def)
  show ?thesis
    by (simp add: handleRequest_def Let_def example_VerifyTrigger auth
          example_ValidateInput [OF assms(5)] assms(1,2,6,7,8) name env tc cd cn
          admin_client_def AddHeader_def initializeWorkspaceCollection_def
          split: prod.splits option.splits)
qed



lemma acme_facts:
  "SanitizeString ''Acme Corp'' = ''Acme Corp''" "MatchString_name ''Acme Corp''"
  "3 \<le> length ''Acme Corp''" "length ''Acme Corp'' \<le> 50"
  "checkValid (example_body ''Acme Corp'' [])"
  by code_simp+

lemma example_env_admin:
  "index example_env ''APPWRITE_ENDPOINT'' = ''https://cloud.appwrite.io/v1''"
  "index example_env ''APPWRITE_PROJECT_ID'' = ''project-1''"
  "index example_env ''APPWRITE_API_KEY'' = ''key-1''"
  by (simp_all add: example_env_def index_def)

lemma example_env_webhook_admin:
  "index example_env_webhook ''APPWRITE_ENDPOINT'' = ''https://cloud.appwrite.io/v1''"
  "index example_env_webhook ''APPWRITE_PROJECT_ID'' = ''project-1''"
  "index example_env_webhook ''APPWRITE_API_KEY'' = ''key-1''"
  by (simp_all add: example_env_webhook_def example_env_def index_def)


lemma example_env_webhook_facts:
  "index example_env_webhook ''WEBHOOK_URL'' = ''https://hooks.example.com/welcome''"
  "index example_env_webhook ''WEBHOOK_API_KEY'' = ''secret-1''"
  "index example_env ''WEBHOOK_URL'' = []"
  "index example_env ''6952f51d00043d5bb1d9'' = []"
  "index example_env ''workspaces'' = []"
  "index example_env ''APPWRITE_DATABASE_ID'' = ''db-main''"
  "index example_env ''APPWRITE_WORKSPACES_COLLECTION_ID'' = ''col-workspaces''"
  by (simp_all add: example_env_webhook_def example_env_def index_def)

lemma short_sanitized: "SanitizeString ''ab'' = ''ab''"
  by code_simp

lemma short_body_valid: "checkValid (example_body ''ab'' [])"
  by code_simp

subsection \<open>Helper facts: replacing runs and trimming hyphens\<close>

lemma slugChar_not_hyphen: "slugChar c \<Longrightarrow> c \<noteq> CHR ''-''"
  by (auto simp: slugChar_def isLower_def isDigit_def)

lemma Replace_slug_prefix:
  "list_all slugChar w \<Longrightarrow> ReplaceAllString_nonslug (w @ s) r = w @ ReplaceAllString_nonslug s r"
  by (induction w) simp_all

lemma slugWords_dropWhile:
  "slugWords (dropWhile (\<lambda>x. \<not> slugChar x) s) = slugWords s"
  by (induction s) simp_all

lemma dropWhile_hyphen_Replace:
  "dropWhile (\<lambda>c. c = CHR ''-'') (ReplaceAllString_nonslug s ''-'')
     = ReplaceAllString_nonslug (dropWhile (\<lambda>x. \<not> slugChar x) s) ''-''"
proof (cases s)
  case Nil
  then show ?thesis by simp
next
  case (Cons c cs)
  show ?thesis
  proof (cases "slugChar c")
    case True
    with Cons show ?thesis by (simp add: slugChar_not_hyphen)
  next
    case False
    define t where "t = dropWhile (\<lambda>x. \<not> slugChar x) cs"
    have "t = [] \<or> slugChar (hd t)"
      unfolding t_def using hd_dropWhile [of "\<lambda>x. \<not> slugChar x" cs] by auto
    then have "dropWhile (\<lambda>c. c = CHR ''-'') (ReplaceAllString_nonslug t ''-'')
               = ReplaceAllString_nonslug t ''-''"
      by (cases t) (auto simp: slugChar_not_hyphen)
    with Cons False show ?thesis by (simp add: t_def)
  qed
qed

lemma trim_right_append:
  "\<exists>y \<in> set ys. \<not> P y \<Longrightarrow> rev (dropWhile P (rev (xs @ ys))) = xs @ rev (dropWhile P (rev ys))"
  by (auto simp: dropWhile_append1)

lemma trim_right_all:
  "\<forall>y \<in> set ys. P y \<Longrightarrow> rev (dropWhile P (rev (xs @ ys))) = rev (dropWhile P (rev xs))"
  using dropWhile_append2 [of "rev ys" P "rev xs"] by simp

lemma trim_right_last:
  "xs \<noteq> [] \<Longrightarrow> \<not> P (last xs) \<Longrightarrow> rev (dropWhile P (rev xs)) = xs"
  by (cases xs rule: rev_cases) simp_all

lemma trim_right_Replace:
  "t = [] \<or> slugChar (hd t) \<Longrightarrow>
   rev (dropWhile (\<lambda>c. c = CHR ''-'') (rev (ReplaceAllString_nonslug t ''-'')))
     = joinWith ''-'' (slugWords t)"
proof (induction t rule: length_induct)
  case (1 t)
  show ?case
  proof (cases t)
    case Nil
    then show ?thesis by simp
  next
    case (Cons c s)
    with 1(2) have c: "slugChar c" by simp
    define word where "word = takeWhile slugChar (c # s)"
    define rest where "rest = dropWhile slugChar s"
    have word: "list_all slugChar word" "word \<noteq> []" "slugChar (last word)"
    proof -
      show "list_all slugChar word"
        unfolding word_def by (simp add: list_all_iff) (meson set_takeWhileD)
      show "word \<noteq> []" using c by (simp add: word_def)
      with \<open>list_all slugChar word\<close> show "slugChar (last word)"
        by (simp add: list_all_iff)
    qed
    have t: "t = word @ rest"
      using c by (simp add: Cons word_def rest_def)
    have words: "slugWords t = word # slugWords rest"
      using c by (simp add: Cons word_def rest_def)
    have repl: "ReplaceAllString_nonslug t ''-'' = word @ ReplaceAllString_nonslug rest ''-''"
      unfolding t by (rule Replace_slug_prefix [OF word(1)])
    show ?thesis
    proof (cases rest)
      case Nil
      with repl words word show ?thesis
        by (simp add: trim_right_last slugChar_not_hyphen)
    next
      case (Cons x r')
      have x: "\<not> slugChar x"
      proof -
        have "dropWhile slugChar s \<noteq> []" using Cons by (simp add: rest_def)
        from hd_dropWhile [OF this] show ?thesis using Cons by (simp add: rest_def)
      qed
      define t' where "t' = dropWhile (\<lambda>x. \<not> slugChar x) r'"
      have repl': "ReplaceAllString_nonslug t ''-'' = (word @ ''-'') @ ReplaceAllString_nonslug t' ''-''"
        using repl Cons x by (simp add: t'_def)
      have words': "slugWords t = word # slugWords t'"
        using words Cons x by (simp add: t'_def slugWords_dropWhile)
      show ?thesis
      proof (cases t')
        case Nil
        have "rev (dropWhile (\<lambda>c. c = CHR ''-'') (rev (word @ ''-'')))
              = rev (dropWhile (\<lambda>c. c = CHR ''-'') (rev word))"
          by (rule trim_right_all) simp
        with Nil repl' words' word show ?thesis
          by (simp add: trim_right_last slugChar_not_hyphen)
      next
        case (Cons c' s')
        have c': "slugChar c'"
        proof -
          have "dropWhile (\<lambda>x. \<not> slugChar x) r' \<noteq> []" using Cons by (simp add: t'_def)
          from hd_dropWhile [OF this] show ?thesis using Cons by (simp add: t'_def)
        qed
        have len: "length t' < length t"
        proof -
          have "length t' \<le> length r'" by (simp add: t'_def length_dropWhile_le)
          also have "\<dots> < length rest" using \<open>rest = x # r'\<close> by simp
          also have "\<dots> \<le> length t" by (simp add: t)
          finally show ?thesis .
        qed
        have ih: "rev (dropWhile (\<lambda>c. c = CHR ''-'') (rev (ReplaceAllString_nonslug t' ''-'')))
                  = joinWith ''-'' (slugWords t')"
        proof -
          have "t' = [] \<or> slugChar (hd t')" using Cons c' by simp
          from 1(1) [rule_format, OF len this] show ?thesis .
        qed
        have nonhyphen: "\<exists>y \<in> set (ReplaceAllString_nonslug t' ''-''). \<not> y = CHR ''-''"
          using Cons c' by (auto simp: slugChar_not_hyphen)
        have "slugWords t' \<noteq> []" using Cons c' by simp
        then obtain w' ws' where ws: "slugWords t' = w' # ws'" by (cases "slugWords t'") auto
        show ?thesis
          unfolding repl' words' trim_right_append [OF nonhyphen] ih
          by (simp add: ws)
      qed
    qed
  qed
qed

lemma generateSlug_joinWith:
  "generateSlug u name = specSlug u name"
proof -
  define s where "s = ToLower u name"
  define t where "t = dropWhile (\<lambda>x. \<not> slugChar x) s"
  have "t = [] \<or> slugChar (hd t)"
    unfolding t_def using hd_dropWhile [of "\<lambda>x. \<not> slugChar x" s] by auto
  then have "rev (dropWhile (\<lambda>c. c = CHR ''-'') (rev (ReplaceAllString_nonslug t ''-'')))
     = joinWith ''-'' (slugWords t)"
    by (rule trim_right_Replace)
  then show ?thesis
    by (simp add: generateSlug_def specSlug_def Trim_def Let_def dropWhile_hyphen_Replace
          slugWords_dropWhile s_def [symmetric] t_def)
qed

lemma slug_examples:
  "generateSlug u ''My  Workspace!!'' = ''my-workspace''"
  "generateSlug u ''  --Foo--  '' = ''foo''"
  by code_simp+

lemma ToLower_ascii: "list_all isASCII name \<Longrightarrow> ToLower u name = map lowerByte name"
proof -
  have "\<not> list_ex isUpper name \<Longrightarrow> map lowerByte name = name"
    by (rule map_idI) (auto simp: lowerByte_def list_ex_iff)
  then show "list_all isASCII name \<Longrightarrow> ToLower u name = map lowerByte name"
    by (simp add: ToLower_def)
qed

subsection \<open>C1: compensation when document creation fails\<close>



subsection \<open>C2: the database and collection identifiers\<close>

text \<open>
  C2 says that the database and collection identifiers of the document creation are the
  values the env map holds under the configured keys, which the deployment documents as
  \<^verbatim>\<open>APPWRITE_DATABASE_ID\<close> and \<^verbatim>\<open>APPWRITE_WORKSPACES_COLLECTION_ID\<close>. The source
  indexes the env map with \<^verbatim>\<open>"6952f51d00043d5bb1d9"\<close> and \<^verbatim>\<open>"workspaces"\<close> instead. With
  both documented keys set, the document is created with the empty database identifier
  and the empty collection identifier.
\<close>

theorem document_target_ignores_configured_ids:
  "index example_env ''APPWRITE_DATABASE_ID'' = ''db-main''
   \<and> index example_env ''APPWRITE_WORKSPACES_COLLECTION_ID'' = ''col-workspaces''
   \<and> document_targets
        (snd (handleRequest (example_platform ''Acme Corp'' (Inr example_document))
                (example_request ''Acme Corp'' example_env))) = [([], [])]"
proof -
  obtain c1 u c2 doc ps ws where run:
    "handleRequest (example_platform ''Acme Corp'' (Inr example_document))
       (example_request ''Acme Corp'' example_env)
      = (\<lparr>StatusCode = 200,
          AppwriteFunctionResponse.Body =
            WorkspaceJSON
              \<lparr>WorkspaceResponse.Success = True, Workspace = ws,
               WorkspaceResponse.Message = ''Workspace created successfully'',
               WorkspaceResponse.Error = []\<rparr>\<rparr>,
         [AccountGet c1 u,
          TeamsCreate c2 ''unique()'' (''Acme Corp'' @ '' Workspace'') (Inr \<lparr>Team.Id = ''team-1''\<rparr>),
          CreateDocument c2 (index example_env ''6952f51d00043d5bb1d9'')
            (index example_env ''workspaces'') ''unique()'' doc ps (Inr example_document)]
         @ (case sendWelcomeWebhook example_env ''Acme Corp'' ''ann@example.com'' ''team-1'' of
              (Some err, tw) \<Rightarrow> tw @ [Log (''Warning: Failed to send welcome webhook: '' @ err)]
            | (None, tw) \<Rightarrow> tw))"
    using example_run_created [OF acme_facts example_env_admin] by blast
  show ?thesis
    by (simp add: run example_env_webhook_facts document_targets_simps sendWelcomeWebhook_def)
qed

subsection \<open>C3: the character class of the name\<close>




subsection \<open>C4: SanitizeString and control characters\<close>

text \<open>
  C4 says that the sanitization function strips null and control characters, so that no
  character with a control code remains in its output. The source removes the byte 0x00
  and nothing else of the control range: on the three bytes \<^verbatim>\<open>a\<close>, 0x01, \<^verbatim>\<open>b\<close> it
  returns its input unchanged, and 0x01 is a control code.
\<close>

theorem SanitizeString_keeps_control_code:
  "SanitizeString [CHR ''a'', CHR 0x01, CHR ''b''] = [CHR ''a'', CHR 0x01, CHR ''b'']
   \<and> isControl (CHR 0x01)"
  by code_simp

subsection \<open>C5: the length of the name\<close>

text \<open>
  C5: for every request that passes the trigger, authentication and parsing gates and
  whose sanitized name is shorter than 3 or longer than 50 bytes, the handler returns
  status 400 with an error body whose code is \<^verbatim>\<open>VALIDATION_ERROR\<close> and whose field is
  \<^verbatim>\<open>name\<close>, and the trace of the invocation has neither a team creation nor a document
  creation.
\<close>

theorem name_length_rejected:
  assumes "VerifyTrigger (AppwriteFunctionRequest.Headers req) = None"
    and "AuthenticateUser w (AppwriteFunctionRequest.Headers req) = (Inr sessionInfo, t2)"
    and "ValidateInput w (AppwriteFunctionRequest.Body req) = Inr createReq"
    and "length (SanitizeString (WorkspaceCreateRequest.Name createReq)) < 3
         \<or> length (SanitizeString (WorkspaceCreateRequest.Name createReq)) > 50"
  shows "StatusCode (fst (handleRequest w req)) = 400
    \<and> (\<exists>e. AppwriteFunctionResponse.Body (fst (handleRequest w req)) = ErrorJSON e
           \<and> \<not> ErrorResponse.Success e
           \<and> Code (ErrorResponse.Error e) = ''VALIDATION_ERROR''
           \<and> Field (ErrorResponse.Error e) = ''name'')
    \<and> filter is_creation_call (snd (handleRequest w req)) = []"
  using assms AuthenticateUser_no_creation [OF assms(2)]
  by (auto simp: handleRequest_def Let_def respondError_def NewErrorResponse_def)

theorem name_length_rejected_witness:
  "length (SanitizeString ''ab'') < 3
   \<and> fst (handleRequest (example_platform ''ab'' (Inl ''unused''))
            (example_request ''ab'' example_env))
       = \<lparr>StatusCode = 400,
          AppwriteFunctionResponse.Body =
            ErrorJSON
              \<lparr>ErrorResponse.Success = False,
               ErrorResponse.Error =
                 \<lparr>Code = ''VALIDATION_ERROR'',
                  APIError.Message = ''Workspace name must be between 3 and 50 characters'',
                  Field = ''name''\<rparr>\<rparr>\<rparr>
   \<and> filter is_creation_call
        (snd (handleRequest (example_platform ''ab'' (Inl ''unused''))
                (example_request ''ab'' example_env))) = []"
proof -
  obtain t2 where auth:
    "AuthenticateUser (example_platform ''ab'' (Inl ''unused''))
       (AppwriteFunctionRequest.Headers (example_request ''ab'' example_env))
     = (Inr \<lparr>UserID = ''user-1'', SessionID = ''session-1'',
              SessionInfo.Email = ''ann@example.com'', SessionInfo.Name = ''Ann''\<rparr>, t2)"
    using example_AuthenticateUser by blast
  have len: "length (SanitizeString ''ab'') < 3"
    by (simp add: short_sanitized)
  have "filter is_creation_call
        (snd (handleRequest (example_platform ''ab'' (Inl ''unused''))
                (example_request ''ab'' example_env))) = []"
    using name_length_rejected
            [OF example_VerifyTrigger auth example_ValidateInput [OF short_body_valid]] len
    by simp
  moreover have "fst (handleRequest (example_platform ''ab'' (Inl ''unused''))
            (example_request ''ab'' example_env))
       = \<lparr>StatusCode = 400,
          AppwriteFunctionResponse.Body =
            ErrorJSON
              \<lparr>ErrorResponse.Success = False,
               ErrorResponse.Error =
                 \<lparr>Code = ''VALIDATION_ERROR'',
                  APIError.Message = ''Workspace name must be between 3 and 50 characters'',
                  Field = ''name''\<rparr>\<rparr>\<rparr>"
    using auth
    by (simp add: handleRequest_def example_VerifyTrigger
          example_ValidateInput [OF short_body_valid] short_sanitized respondError_def
          NewErrorResponse_def)
  ultimately show ?thesis using len by simp
qed

subsection \<open>C6: slug derivation\<close>

text \<open>
  C6: the slug is a function of the name alone. It is the lower-cased name with every
  run of characters outside \<^verbatim>\<open>[a-z0-9]\<close> collapsed to one hyphen and the hyphens at both
  ends removed, that is, the runs of lower-case letters and digits of the lower-cased
  name joined by single hyphens; for a name of ASCII bytes lower-casing is the bytewise
  map of \<^verbatim>\<open>A..Z\<close> to \<^verbatim>\<open>a..z\<close>. It maps \<^verbatim>\<open>"My  Workspace!!"\<close> to \<^verbatim>\<open>"my-workspace"\<close>
  and \<^verbatim>\<open>"  --Foo--  "\<close> to \<^verbatim>\<open>"foo"\<close>.
\<close>

theorem generateSlug_spec:
  "generateSlug u name = specSlug u name
   \<and> (list_all isASCII name \<longrightarrow>
        generateSlug u name = joinWith ''-'' (slugWords (map lowerByte name)))
   \<and> generateSlug u ''My  Workspace!!'' = ''my-workspace''
   \<and> generateSlug u ''  --Foo--  '' = ''foo''"
  using generateSlug_joinWith [of u name] slug_examples [of u]
  by (simp add: specSlug_def ToLower_ascii)

theorem generateSlug_spec_witness:
  "list_all isASCII ''Acme Corp''
   \<and> generateSlug (\<lambda>s. s) ''Acme Corp'' = joinWith ''-'' (slugWords (map lowerByte ''Acme Corp''))
   \<and> joinWith ''-'' (slugWords (map lowerByte ''Acme Corp'')) = ''acme-corp''"
proof -
  have ascii: "list_all isASCII ''Acme Corp''" by code_simp
  have val: "joinWith ''-'' (slugWords (map lowerByte ''Acme Corp'')) = ''acme-corp''"
    by code_simp
  from generateSlug_spec [of "\<lambda>s. s" "''Acme Corp''"] ascii
  have "generateSlug (\<lambda>s. s) ''Acme Corp'' = joinWith ''-'' (slugWords (map lowerByte ''Acme Corp''))"
    by blast
  with ascii val show ?thesis by blast
qed

subsection \<open>C7: the default plan\<close>

text \<open>
  C7: when an invocation whose request has the empty plan ends with status 200, the
  workspace in the response has plan \<^verbatim>\<open>free\<close>, status \<^verbatim>\<open>active\<close>, and a tenant id equal
  to its team id, which is the id of the team the invocation created.
\<close>

theorem default_plan_free:
  assumes run: "handleRequest w req = (resp, tr)"
    and ok: "StatusCode resp = 200"
    and body: "ValidateInput w (AppwriteFunctionRequest.Body req) = Inr createReq"
    and plan: "WorkspaceCreateRequest.Plan createReq = []"
  shows "\<exists>r c i n team.
      AppwriteFunctionResponse.Body resp = WorkspaceJSON r
    \<and> WorkspaceResponse.Success r
    \<and> Workspace.Plan (Workspace r) = ''free''
    \<and> Status (Workspace r) = ''active''
    \<and> TenantID (Workspace r) = TeamID (Workspace r)
    \<and> TeamsCreate c i n (Inr team) \<in> set tr
    \<and> TeamID (Workspace r) = Team.Id team"
  using run
proof (cases rule: handleRequest_shape)
  case rejected
  with ok show ?thesis by simp
next
  case (team_failed t2 c nm err)
  with ok show ?thesis by (simp add: respondError_def)
next
  case (document_failed t2 c0 nm team0 d0 k0 doc0 ps0 err0)
  with ok show ?thesis by (simp add: respondError_def)
next
  case (created t2 c0 nm team0 d0 k0 doc0 ps0 document wl sessionInfo createReq0 ws)
  from created(4) body have "createReq0 = createReq" by simp
  with created(6) plan have "Workspace.Plan ws = ''free''" by simp
  moreover have "TeamsCreate c0 ''unique()'' nm (Inr team0) \<in> set tr"
    using created(1) by simp
  ultimately show ?thesis using created(5,7,8,9) by fastforce
qed

theorem default_plan_free_witness:
  "\<exists>r. AppwriteFunctionResponse.Body
          (fst (handleRequest (example_platform ''Acme Corp'' (Inr example_document))
                  (example_request ''Acme Corp'' example_env))) = WorkspaceJSON r
      \<and> Workspace.Plan (Workspace r) = ''free''
      \<and> Status (Workspace r) = ''active''
      \<and> TenantID (Workspace r) = TeamID (Workspace r)"
proof -
  have run: "handleRequest (example_platform ''Acme Corp'' (Inr example_document))
               (example_request ''Acme Corp'' example_env)
             = (fst (handleRequest (example_platform ''Acme Corp'' (Inr example_document))
                       (example_request ''Acme Corp'' example_env)),
                snd (handleRequest (example_platform ''Acme Corp'' (Inr example_document))
                       (example_request ''Acme Corp'' example_env)))"
    by simp
  have ok: "StatusCode (fst (handleRequest (example_platform ''Acme Corp'' (Inr example_document))
                       (example_request ''Acme Corp'' example_env))) = 200"
    using example_run_created [OF acme_facts example_env_admin, of example_document] by auto
  show ?thesis
    using default_plan_free [OF run ok example_ValidateInput [OF acme_facts(5)]] by auto
qed

subsection \<open>C8: the webhook step is not surfaced\<close>

text \<open>
  C8: when team and document creation have both succeeded, the handler returns the
  success response with status 200 whatever the webhook step does: the response is the
  one the handler returns for any other setting of the two webhook keys of the env map,
  everything the trace holds after the document creation is a log line, and a missing
  URL or key shows as a warning in the log.
\<close>

theorem webhook_outcome_not_surfaced:
  assumes run: "handleRequest w req = (resp, tr)"
    and team: "TeamsCreate c i n (Inr team) \<in> set tr"
    and doc: "CreateDocument c' d k i' doc ps (Inr document) \<in> set tr"
  shows "StatusCode resp = 200
    \<and> (\<exists>r. AppwriteFunctionResponse.Body resp = WorkspaceJSON r \<and> WorkspaceResponse.Success r)
    \<and> fst (handleRequest w
              (req\<lparr>Env := (Env req)(''WEBHOOK_URL'' := url, ''WEBHOOK_API_KEY'' := key)\<rparr>)) = resp
    \<and> (\<exists>pre wl. tr = pre @ [CreateDocument c' d k i' doc ps (Inr document)] @ wl
           \<and> filter (\<lambda>e. \<not> is_log e) wl = []
           \<and> (index (Env req) ''WEBHOOK_URL'' = [] \<longrightarrow>
                wl = [Log ''Warning: Failed to send welcome webhook: webhook URL not configured''])
           \<and> (index (Env req) ''WEBHOOK_URL'' \<noteq> [] \<and> index (Env req) ''WEBHOOK_API_KEY'' = [] \<longrightarrow>
                wl = [Log ''Warning: Failed to send welcome webhook: webhook API key not configured'']))"
  using run
proof (cases rule: handleRequest_shape)
  case rejected
  with team show ?thesis by auto
next
  case (team_failed t2 c nm err)
  with doc show ?thesis by auto
next
  case (document_failed t2 c0 nm team0 d0 k0 doc0 ps0 err0)
  with doc show ?thesis by auto
next
  case (created t2 c0 nm team0 d0 k0 doc0 ps0 document0 wl sessionInfo createReq ws)
  have wl: "filter (\<lambda>e. \<not> is_log e) wl = []"
    unfolding created(2) by (auto simp: sendWelcomeWebhook_def Let_def)
  then have "CreateDocument c' d k i' doc ps (Inr document) \<notin> set wl"
    by (auto simp: filter_empty_conv)
  with doc created(1,3)
  have same: "CreateDocument c' d k i' doc ps (Inr document)
              = CreateDocument c0 d0 k0 ''unique()'' doc0 ps0 (Inr document0)"
    by auto
  have "tr = (t2 @ [TeamsCreate c0 ''unique()'' nm (Inr team0)])
               @ [CreateDocument c' d k i' doc ps (Inr document)] @ wl"
    using created(1) same by simp
  moreover have "index (Env req) ''WEBHOOK_URL'' = [] \<longrightarrow>
      wl = [Log ''Warning: Failed to send welcome webhook: webhook URL not configured'']"
    unfolding created(2) by (simp add: sendWelcomeWebhook_def Let_def)
  moreover have "index (Env req) ''WEBHOOK_URL'' \<noteq> [] \<and> index (Env req) ''WEBHOOK_API_KEY'' = [] \<longrightarrow>
      wl = [Log ''Warning: Failed to send welcome webhook: webhook API key not configured'']"
    unfolding created(2) by (simp add: sendWelcomeWebhook_def Let_def)
  moreover have "fst (handleRequest w
              (req\<lparr>Env := (Env req)(''WEBHOOK_URL'' := url, ''WEBHOOK_API_KEY'' := key)\<rparr>)) = resp"
    using handleRequest_webhook_env_fst [of w req url key] run by simp
  moreover have "StatusCode resp = 200"
    "\<exists>r. AppwriteFunctionResponse.Body resp = WorkspaceJSON r \<and> WorkspaceResponse.Success r"
    using created(5) by simp_all
  ultimately show ?thesis using wl by blast
qed

theorem webhook_outcome_not_surfaced_witness:
  "StatusCode (fst (handleRequest (example_platform ''Acme Corp'' (Inr example_document))
                      (example_request ''Acme Corp'' example_env))) = 200
   \<and> fst (handleRequest (example_platform ''Acme Corp'' (Inr example_document))
            (example_request ''Acme Corp'' example_env_webhook))
       = fst (handleRequest (example_platform ''Acme Corp'' (Inr example_document))
               (example_request ''Acme Corp'' example_env))
   \<and> Log ''Warning: Failed to send welcome webhook: webhook URL not configured''
       \<in> set (snd (handleRequest (example_platform ''Acme Corp'' (Inr example_document))
                      (example_request ''Acme Corp'' example_env)))"
proof -
  obtain c1 u c2 doc ps ws where run:
    "handleRequest (example_platform ''Acme Corp'' (Inr example_document))
       (example_request ''Acme Corp'' example_env)
      = (\<lparr>StatusCode = 200,
          AppwriteFunctionResponse.Body =
            WorkspaceJSON
              \<lparr>WorkspaceResponse.Success = True, Workspace = ws,
               WorkspaceResponse.Message = ''Workspace created successfully'',
               WorkspaceResponse.Error = []\<rparr>\<rparr>,
         [AccountGet c1 u,
          TeamsCreate c2 ''unique()'' (''Acme Corp'' @ '' Workspace'') (Inr \<lparr>Team.Id = ''team-1''\<rparr>),
          CreateDocument c2 (index example_env ''6952f51d00043d5bb1d9'')
            (index example_env ''workspaces'') ''unique()'' doc ps (Inr example_document)]
         @ (case sendWelcomeWebhook example_env ''Acme Corp'' ''ann@example.com'' ''team-1'' of
              (Some err, tw) \<Rightarrow> tw @ [Log (''Warning: Failed to send welcome webhook: '' @ err)]
            | (None, tw) \<Rightarrow> tw))"
    using example_run_created [OF acme_facts example_env_admin] by blast
  have upd: "example_request ''Acme Corp'' example_env_webhook
    = (example_request ''Acme Corp'' example_env)
        \<lparr>Env := (Env (example_request ''Acme Corp'' example_env))
                 (''WEBHOOK_URL'' := Some ''https://hooks.example.com/welcome'',
                  ''WEBHOOK_API_KEY'' := Some ''secret-1'')\<rparr>"
    by (simp add: example_request_def example_env_webhook_def)
  have "fst (handleRequest (example_platform ''Acme Corp'' (Inr example_document))
              ((example_request ''Acme Corp'' example_env)
                 \<lparr>Env := (Env (example_request ''Acme Corp'' example_env))
                   (''WEBHOOK_URL'' := Some ''https://hooks.example.com/welcome'',
                    ''WEBHOOK_API_KEY'' := Some ''secret-1'')\<rparr>))
        = fst (handleRequest (example_platform ''Acme Corp'' (Inr example_document))
                 (example_request ''Acme Corp'' example_env))"
    using webhook_outcome_not_surfaced [OF run,
        of c2 "''unique()''" "''Acme Corp'' @ '' Workspace''" "\<lparr>Team.Id = ''team-1''\<rparr>"
           c2 "index example_env ''6952f51d00043d5bb1d9''" "index example_env ''workspaces''"
           "''unique()''" doc ps example_document
           "Some ''https://hooks.example.com/welcome''" "Some ''secret-1''"]
    by (simp add: run)
  then show ?thesis
    unfolding upd
    by (simp add: run example_env_webhook_facts sendWelcomeWebhook_def)
qed

subsection \<open>C9: a configured webhook\<close>

text \<open>
  C9 as stated fails: with a webhook URL and key in the env map and a provisioning that
  succeeds, the handler makes no HTTP call at all.
\<close>

theorem configured_webhook_no_request:
  "StatusCode (fst (handleRequest (example_platform ''Acme Corp'' (Inr example_document))
                      (example_request ''Acme Corp'' example_env_webhook))) = 200
   \<and> index (Env (example_request ''Acme Corp'' example_env_webhook)) ''WEBHOOK_URL''
       = ''https://hooks.example.com/welcome''
   \<and> index (Env (example_request ''Acme Corp'' example_env_webhook)) ''WEBHOOK_API_KEY''
       = ''secret-1''
   \<and> filter is_http_call
        (snd (handleRequest (example_platform ''Acme Corp'' (Inr example_document))
                (example_request ''Acme Corp'' example_env_webhook))) = []"
proof -
  obtain c1 u c2 doc ps ws where run:
    "handleRequest (example_platform ''Acme Corp'' (Inr example_document))
       (example_request ''Acme Corp'' example_env_webhook)
      = (\<lparr>StatusCode = 200,
          AppwriteFunctionResponse.Body =
            WorkspaceJSON
              \<lparr>WorkspaceResponse.Success = True, Workspace = ws,
               WorkspaceResponse.Message = ''Workspace created successfully'',
               WorkspaceResponse.Error = []\<rparr>\<rparr>,
         [AccountGet c1 u,
          TeamsCreate c2 ''unique()'' (''Acme Corp'' @ '' Workspace'') (Inr \<lparr>Team.Id = ''team-1''\<rparr>),
          CreateDocument c2 (index example_env_webhook ''6952f51d00043d5bb1d9'')
            (index example_env_webhook ''workspaces'') ''unique()'' doc ps (Inr example_document)]
         @ (case sendWelcomeWebhook example_env_webhook ''Acme Corp'' ''ann@example.com'' ''team-1'' of
              (Some err, tw) \<Rightarrow> tw @ [Log (''Warning: Failed to send welcome webhook: '' @ err)]
            | (None, tw) \<Rightarrow> tw))"
    using example_run_created [OF acme_facts example_env_webhook_admin] by blast
  have env: "Env (example_request ''Acme Corp'' example_env_webhook) = example_env_webhook"
    by (simp add: example_request_def)
  show ?thesis
    by (simp add: run env example_env_webhook_facts sendWelcomeWebhook_def)
qed

text \<open>
  C9 amended: for every successful provisioning in which both a webhook URL and a webhook
  key are set in the env map, the handler makes no outbound request; it writes the log
  line \<^verbatim>\<open>Would send webhook to <url> for workspace <name> (team: <team id>)\<close>.
\<close>

theorem configured_webhook_only_logged:
  assumes run: "handleRequest w req = (resp, tr)"
    and ok: "StatusCode resp = 200"
    and url: "index (Env req) ''WEBHOOK_URL'' \<noteq> []"
    and key: "index (Env req) ''WEBHOOK_API_KEY'' \<noteq> []"
  shows "filter is_http_call tr = []
    \<and> (\<exists>r. AppwriteFunctionResponse.Body resp = WorkspaceJSON r
          \<and> Log (''Would send webhook to '' @ index (Env req) ''WEBHOOK_URL''
                   @ '' for workspace '' @ Workspace.Name (Workspace r)
                   @ '' (team: '' @ TeamID (Workspace r) @ '')'') \<in> set tr)"
  using run
proof (cases rule: handleRequest_shape)
  case rejected
  with ok show ?thesis by simp
next
  case (team_failed t2 c nm err)
  with ok show ?thesis by (simp add: respondError_def)
next
  case (document_failed t2 c0 nm team0 d0 k0 doc0 ps0 err0)
  with ok show ?thesis by (simp add: respondError_def)
next
  case (created t2 c0 nm team0 d0 k0 doc0 ps0 document0 wl sessionInfo createReq ws)
  have wl: "wl = [Log (''Would send webhook to '' @ index (Env req) ''WEBHOOK_URL''
                   @ '' for workspace '' @ Workspace.Name ws
                   @ '' (team: '' @ TeamID ws @ '')'')]"
    unfolding created(2) using url key created(8,11)
    by (simp add: sendWelcomeWebhook_def Let_def)
  have "filter is_http_call tr = []"
    using created(1,3) wl by (simp add: AccountGet_only_no_http)
  moreover have "Log (''Would send webhook to '' @ index (Env req) ''WEBHOOK_URL''
                   @ '' for workspace '' @ Workspace.Name ws
                   @ '' (team: '' @ TeamID ws @ '')'') \<in> set tr"
    using created(1) wl by simp
  ultimately show ?thesis using created(5) by simp
qed

theorem configured_webhook_only_logged_witness:
  "Log ''Would send webhook to https://hooks.example.com/welcome for workspace Acme Corp (team: team-1)''
     \<in> set (snd (handleRequest (example_platform ''Acme Corp'' (Inr example_document))
                    (example_request ''Acme Corp'' example_env_webhook)))
   \<and> filter is_http_call
        (snd (handleRequest (example_platform ''Acme Corp'' (Inr example_document))
                (example_request ''Acme Corp'' example_env_webhook))) = []"
proof -
  obtain c1 u c2 doc ps ws where run:
    "handleRequest (example_platform ''Acme Corp'' (Inr example_document))
       (example_request ''Acme Corp'' example_env_webhook)
      = (\<lparr>StatusCode = 200,
          AppwriteFunctionResponse.Body =
            WorkspaceJSON
              \<lparr>WorkspaceResponse.Success = True, Workspace = ws,
               WorkspaceResponse.Message = ''Workspace created successfully'',
               WorkspaceResponse.Error = []\<rparr>\<rparr>,
         [AccountGet c1 u,
          TeamsCreate c2 ''unique()'' (''Acme Corp'' @ '' Workspace'') (Inr \<lparr>Team.Id = ''team-1''\<rparr>),
          CreateDocument c2 (index example_env_webhook ''6952f51d00043d5bb1d9'')
            (index example_env_webhook ''workspaces'') ''unique()'' doc ps (Inr example_document)]
         @ (case sendWelcomeWebhook example_env_webhook ''Acme Corp'' ''ann@example.com'' ''team-1'' of
              (Some err, tw) \<Rightarrow> tw @ [Log (''Warning: Failed to send welcome webhook: '' @ err)]
            | (None, tw) \<Rightarrow> tw))"
    and ws: "Workspace.Name ws = ''Acme Corp''" "TeamID ws = ''team-1''"
    using example_run_created [OF acme_facts example_env_webhook_admin] by blast
  have env: "Env (example_request ''Acme Corp'' example_env_webhook) = example_env_webhook"
    by (simp add: example_request_def)
  show ?thesis
    using configured_webhook_only_logged [OF run] ws
    by (simp add: run env example_env_webhook_facts sendWelcomeWebhook_def)
qed

text \<open>
  The request the claim describes is the one \<^verbatim>\<open>SendWelcomeWebhook\<close> of
  \<^verbatim>\<open>shared/services\<close> makes, from the process environment, when it is called: a POST to
  the configured URL with the header \<^verbatim>\<open>Authorization: Bearer <key>\<close> and the marshalled
  event as its body. The handler does not call it.
\<close>

lemma SendWelcomeWebhook_posts:
  assumes "os_Getenv w ''WEBHOOK_URL'' = url" "url \<noteq> []"
    and "os_Getenv w ''WEBHOOK_API_KEY'' = key" "key \<noteq> []"
    and "json_Marshal w
           \<lparr>Event = ''workspace.created'', Timestamp = time_Now w,
            Data = [(''workspaceName'', workspaceName), (''userEmail'', userEmail),
                    (''teamId'', teamID)]\<rparr> = Inr jsonData"
    and "http_NewRequest w ''POST'' url = None"
  shows "\<exists>rq r. snd (SendWelcomeWebhook w workspaceName userEmail teamID) = [HttpDo rq r]
           \<and> Method rq = ''POST'' \<and> URL rq = url
           \<and> Header rq ''Authorization'' = Some (''Bearer '' @ key)
           \<and> HttpRequest.Body rq = jsonData"
  using assms
  by (simp add: SendWelcomeWebhook_def Let_def split: sum.split)

subsection \<open>C10: a payload that is not valid JSON\<close>

text \<open>
  C10 as stated fails: the payload \<^verbatim>\<open>{"headers":{}} trailing-garbage\<close> is not valid JSON,
  yet \<^verbatim>\<open>Decode\<close> reads the object it begins with and leaves the rest unread, the handler
  runs on a request without headers, and the process prints its answer, a 401 with the
  code \<^verbatim>\<open>UNAUTHORIZED\<close>.
\<close>

theorem trailing_text_is_answered:
  "\<not> checkValid example_payload
   \<and> fst (main (example_platform ''Acme Corp'' (Inl ''unused'')) example_payload)
       = [\<lparr>StatusCode = 401,
           AppwriteFunctionResponse.Body =
             ErrorJSON
               \<lparr>ErrorResponse.Success = False,
                ErrorResponse.Error =
                  \<lparr>Code = ''UNAUTHORIZED'',
                   APIError.Message = ''missing x-appwrite-trigger header'',
                   Field = []\<rparr>\<rparr>\<rparr>]"
proof -
  have invalid: "\<not> checkValid example_payload" by code_simp
  have "readValue example_payload = ValueEnds 14"
    "take 14 example_payload = example_payload_value"
    by code_simp+
  then have "Decoder_Decode (example_platform ''Acme Corp'' (Inl ''unused'')) example_payload
    = Inr \<lparr>AppwriteFunctionRequest.Headers = Map.empty,
            AppwriteFunctionRequest.Body = [], Env = Map.empty\<rparr>"
    by (simp add: Decoder_Decode_def example_platform_def)
  then have "fst (main (example_platform ''Acme Corp'' (Inl ''unused'')) example_payload)
       = [\<lparr>StatusCode = 401,
           AppwriteFunctionResponse.Body =
             ErrorJSON
               \<lparr>ErrorResponse.Success = False,
                ErrorResponse.Error =
                  \<lparr>Code = ''UNAUTHORIZED'',
                   APIError.Message = ''missing x-appwrite-trigger header'',
                   Field = []\<rparr>\<rparr>\<rparr>]"
    by (simp add: main_def handleRequest_def VerifyTrigger_def index_def respondError_def
          NewErrorResponse_def)
  with invalid show ?thesis by simp
qed

text \<open>
  C10 amended: for every invocation whose payload on standard input does not begin with
  a JSON value, that is, none of whose prefixes is valid JSON, the process writes nothing
  to standard output (and nothing to the log): the error response that
  \<^verbatim>\<open>respondError\<close> builds is dropped by \<^verbatim>\<open>main\<close>.
\<close>

theorem main_no_json_value_prints_nothing:
  assumes "\<not> begins_with_json_value stdin"
  shows "fst (main w stdin) = [] \<and> snd (main w stdin) = []"
proof (cases "readValue stdin")
  case (ValueEnds n)
  then have "begins_with_json_value stdin" by (rule readValue_begins)
  with assms show ?thesis by simp
next
  case SyntaxError
  then show ?thesis by (simp add: main_def Decoder_Decode_def)
next
  case EndOfInput
  then show ?thesis by (simp add: main_def Decoder_Decode_def)
qed

theorem main_no_json_value_prints_nothing_witness:
  "\<not> begins_with_json_value ''{not json''
   \<and> fst (main (example_platform ''Acme Corp'' (Inl ''unused'')) ''{not json'') = []
   \<and> snd (main (example_platform ''Acme Corp'' (Inl ''unused'')) ''{not json'') = []"
proof -
  have no_value: "\<not> begins_with_json_value ''{not json''" by code_simp
  from main_no_json_value_prints_nothing [OF no_value] no_value
  show ?thesis by simp
qed

end
